theory Spec2Isabelle
  imports Main "HOL-Library.Word"
begin

text \<open>
  A model of \<open>index.ts\<close>, the binding of the chDB native library for Bun: the Result
  Decoder, the Connection String Parser, the Connection Manager, the Streaming Cursor and
  the Finalization Supervisor. Every function of the module is a function here, under its
  own name; what the module does to the world (native calls, reads of native memory,
  registrations) is a state passed through each call, and what it raises is a value.
\<close>

section \<open>Errors\<close>

text \<open>
  \<^verbatim>\<open>class CHDBError extends Error\<close> (index.ts, lines 15-20) is the only error class the
  module declares. \<open>TypeError\<close> is the JavaScript runtime's own error, raised when a
  property that is not a function is called and when \<open>CString\<close> is asked to decode zero
  bytes at a non-null pointer.
\<close>

datatype exn = CHDBError string | TypeError string


fun message_of :: "exn \<Rightarrow> string" where
  "message_of (CHDBError m) = m"
| "message_of (TypeError m) = m"

section \<open>Native memory, native calls and the trace of effects\<close>

text \<open>
  A pointer is a number; the null pointer is \<open>0\<close> (the falsy value tested by \<open>!ptr\<close>).
  The functions of \<open>bun:ffi\<close> that read native memory are not part of the repository; they
  are the fields of \<open>memory\<close>. \<open>cstring p\<close> is \<open>new CString(p).toString()\<close>, and
  \<open>cstring_len p n\<close> is \<open>new CString(p, 0, Number(n)).toString()\<close>. A double is kept as its
  64 bits. The reads of pointers and numbers and the decoding of a NUL-terminated text
  return a value for every pointer and never raise. The decoding of \<open>n\<close> bytes may raise
  an error of the runtime's own (the runtime raises a \<open>TypeError\<close> for a non-null pointer
  with the length 0), so \<open>cstring_len\<close> answers with the text or with the error raised.
  The memory is the same at every read of one run.
\<close>

type_synonym pointer = nat

record memory =
  read_ptr :: "pointer \<Rightarrow> nat \<Rightarrow> pointer"
  read_u64 :: "pointer \<Rightarrow> nat \<Rightarrow> 64 word"
  read_f64 :: "pointer \<Rightarrow> nat \<Rightarrow> 64 word"
  cstring :: "pointer \<Rightarrow> string"
  cstring_len :: "pointer \<Rightarrow> 64 word \<Rightarrow> exn + string"

text \<open>
  Every read of native memory and every call of a symbol of \<open>libchdb.so\<close> is recorded,
  in order, so that "invoked exactly once", "in that order" and "never read" are
  statements about the trace.
\<close>

datatype event =
    Read_ptr pointer nat
  | Read_u64 pointer nat
  | Read_f64 pointer nat
  | Read_CString pointer
  | Read_CString_len pointer "64 word"
  | Query_stable_v2 nat "string list"
  | Free_result_v2 pointer
  | Connect_chdb nat "string list"
  | Close_conn pointer
  | Query_conn pointer string string
  | Query_conn_streaming pointer string string
  | Chdb_streaming_result_error pointer
  | Chdb_streaming_fetch_result pointer pointer
  | Chdb_streaming_cancel_query pointer pointer
  | Chdb_destroy_result pointer

text \<open>
  Objects tracked by a \<open>FinalizationRegistry\<close> are known by their identity. A registry
  is the list of its live registrations: the target, the held value and the
  unregister token (if one was given).
\<close>

type_synonym obj_id = nat

text \<open>
  The state threaded through every operation. The native engine is an external
  collaborator: what each of its entry points returns is scripted, one list per entry
  point, consumed from the head; an exhausted script answers null.
\<close>

record world =
  mem :: memory
  trace :: "event list"
  query_returns :: "pointer list"
  connect_returns :: "pointer list"
  streaming_returns :: "pointer list"
  error_returns :: "pointer list"
  fetch_returns :: "pointer list"
  connectionRegistry :: "(obj_id \<times> pointer) list"
  streamRegistry :: "(obj_id \<times> (pointer \<times> pointer) \<times> obj_id) list"
  next_obj :: obj_id

definition emit :: "event \<Rightarrow> world \<Rightarrow> world" where
  "emit e w = w\<lparr>trace := trace w @ [e]\<rparr>"

fun next_return :: "pointer list \<Rightarrow> pointer \<times> pointer list" where
  "next_return [] = (0, [])"
| "next_return (p # ps) = (p, ps)"

subsection \<open>Reads through \<open>bun:ffi\<close>\<close>

definition ffi_read_ptr :: "pointer \<Rightarrow> nat \<Rightarrow> world \<Rightarrow> pointer \<times> world" where
  "ffi_read_ptr p off w = (read_ptr (mem w) p off, emit (Read_ptr p off) w)"

definition ffi_read_u64 :: "pointer \<Rightarrow> nat \<Rightarrow> world \<Rightarrow> 64 word \<times> world" where
  "ffi_read_u64 p off w = (read_u64 (mem w) p off, emit (Read_u64 p off) w)"

definition ffi_read_f64 :: "pointer \<Rightarrow> nat \<Rightarrow> world \<Rightarrow> 64 word \<times> world" where
  "ffi_read_f64 p off w = (read_f64 (mem w) p off, emit (Read_f64 p off) w)"

definition CString :: "pointer \<Rightarrow> world \<Rightarrow> string \<times> world" where
  "CString p w = (cstring (mem w) p, emit (Read_CString p) w)"

definition CString_len :: "pointer \<Rightarrow> 64 word \<Rightarrow> world \<Rightarrow> (exn + string) \<times> world" where
  "CString_len p n w = (cstring_len (mem w) p n, emit (Read_CString_len p n) w)"

subsection \<open>The symbols of \<open>libchdb.so\<close> (index.ts, lines 22-64)\<close>

definition query_stable_v2 :: "nat \<Rightarrow> string list \<Rightarrow> world \<Rightarrow> pointer \<times> world" where
  "query_stable_v2 argc argv w =
     (case next_return (query_returns w) of
        (p, rest) \<Rightarrow> (p, emit (Query_stable_v2 argc argv) (w\<lparr>query_returns := rest\<rparr>)))"

definition free_result_v2 :: "pointer \<Rightarrow> world \<Rightarrow> world" where
  "free_result_v2 p w = emit (Free_result_v2 p) w"

definition connect_chdb :: "nat \<Rightarrow> string list \<Rightarrow> world \<Rightarrow> pointer \<times> world" where
  "connect_chdb argc argv w =
     (case next_return (connect_returns w) of
        (p, rest) \<Rightarrow> (p, emit (Connect_chdb argc argv) (w\<lparr>connect_returns := rest\<rparr>)))"

definition close_conn :: "pointer \<Rightarrow> world \<Rightarrow> world" where
  "close_conn p w = emit (Close_conn p) w"

definition query_conn :: "pointer \<Rightarrow> string \<Rightarrow> string \<Rightarrow> world \<Rightarrow> pointer \<times> world" where
  "query_conn c q f w =
     (case next_return (query_returns w) of
        (p, rest) \<Rightarrow> (p, emit (Query_conn c q f) (w\<lparr>query_returns := rest\<rparr>)))"

definition query_conn_streaming ::
  "pointer \<Rightarrow> string \<Rightarrow> string \<Rightarrow> world \<Rightarrow> pointer \<times> world" where
  "query_conn_streaming c q f w =
     (case next_return (streaming_returns w) of
        (p, rest) \<Rightarrow> (p, emit (Query_conn_streaming c q f) (w\<lparr>streaming_returns := rest\<rparr>)))"

definition chdb_streaming_result_error :: "pointer \<Rightarrow> world \<Rightarrow> pointer \<times> world" where
  "chdb_streaming_result_error s w =
     (case next_return (error_returns w) of
        (p, rest) \<Rightarrow> (p, emit (Chdb_streaming_result_error s) (w\<lparr>error_returns := rest\<rparr>)))"

definition chdb_streaming_fetch_result :: "pointer \<Rightarrow> pointer \<Rightarrow> world \<Rightarrow> pointer \<times> world" where
  "chdb_streaming_fetch_result c s w =
     (case next_return (fetch_returns w) of
        (p, rest) \<Rightarrow> (p, emit (Chdb_streaming_fetch_result c s) (w\<lparr>fetch_returns := rest\<rparr>)))"

definition chdb_streaming_cancel_query :: "pointer \<Rightarrow> pointer \<Rightarrow> world \<Rightarrow> world" where
  "chdb_streaming_cancel_query c s w = emit (Chdb_streaming_cancel_query c s) w"

definition chdb_destroy_result :: "pointer \<Rightarrow> world \<Rightarrow> world" where
  "chdb_destroy_result s w = emit (Chdb_destroy_result s) w"

section \<open>The Result Decoder: \<open>processLocalResultV2\<close> (index.ts, lines 95-134)\<close>

record QueryStats =
  elapsed :: "64 word"
  rowsRead :: "64 word"
  bytesRead :: "64 word"

record QueryResultWithStats =
  data :: string
  stats :: QueryStats

text \<open>
  \<open>try { body } finally { fin }\<close>: the finaliser runs after the body whether the body
  returned or raised, and the body's outcome is kept.
\<close>

definition try_finally ::
  "(world \<Rightarrow> (exn + 'a) \<times> world) \<Rightarrow> (world \<Rightarrow> world) \<Rightarrow> world \<Rightarrow> (exn + 'a) \<times> world" where
  "try_finally body fin w = (case body w of (r, w') \<Rightarrow> (r, fin w'))"

definition bufOffset :: nat where "bufOffset = 0"
definition lenOffset :: nat where "lenOffset = 8"
definition elapsedOffset :: nat where "elapsedOffset = 24"
definition rowsReadOffset :: nat where "rowsReadOffset = 32"
definition bytesReadOffset :: nat where "bytesReadOffset = 40"
definition errorMessageOffset :: nat where "errorMessageOffset = 48"

definition processLocalResultV2_body ::
  "pointer \<Rightarrow> pointer \<Rightarrow> world \<Rightarrow> (exn + QueryResultWithStats) \<times> world" where
  "processLocalResultV2_body resultPtr errorMessagePtr w =
     (if errorMessagePtr \<noteq> 0 then
        (case CString errorMessagePtr w of
           (errorMessage, w1) \<Rightarrow> (Inl (CHDBError (''chDB Error: '' @ errorMessage)), w1))
      else
        (case ffi_read_ptr resultPtr bufOffset w of (bufPtr, w1) \<Rightarrow>
         case ffi_read_u64 resultPtr lenOffset w1 of (len, w2) \<Rightarrow>
         case CString_len bufPtr len w2 of
           (Inl e, w3) \<Rightarrow> (Inl e, w3)
         | (Inr d, w3) \<Rightarrow>
             (case ffi_read_f64 resultPtr elapsedOffset w3 of (el, w4) \<Rightarrow>
              case ffi_read_u64 resultPtr rowsReadOffset w4 of (rr, w5) \<Rightarrow>
              case ffi_read_u64 resultPtr bytesReadOffset w5 of (br, w6) \<Rightarrow>
                (Inr \<lparr>data = d, stats = \<lparr>elapsed = el, rowsRead = rr, bytesRead = br\<rparr>\<rparr>,
                 w6))))"

definition processLocalResultV2 ::
  "pointer \<Rightarrow> world \<Rightarrow> (exn + QueryResultWithStats) \<times> world" where
  "processLocalResultV2 resultPtr w =
     (case ffi_read_ptr resultPtr errorMessageOffset w of
        (errorMessagePtr, w0) \<Rightarrow>
          try_finally (processLocalResultV2_body resultPtr errorMessagePtr)
            (free_result_v2 resultPtr) w0)"

text \<open>The events a call adds to the trace, given the trace before it.\<close>

definition new_events :: "world \<Rightarrow> world \<Rightarrow> event list" where
  "new_events w w' = drop (length (trace w)) (trace w')"

section \<open>Strings\<close>

text \<open>
  A string is the list of its characters. \<open>startsWith\<close>, \<open>slice\<close> and \<open>indexOf\<close> are the
  methods of the same names, at the arities the module uses.
\<close>

definition startsWith :: "string \<Rightarrow> string \<Rightarrow> bool" where
  "startsWith s p = (take (length p) s = p)"

definition slice :: "string \<Rightarrow> nat \<Rightarrow> string" where
  "slice s n = drop n s"

definition slice2 :: "string \<Rightarrow> nat \<Rightarrow> nat \<Rightarrow> string" where
  "slice2 s a b = take (b - a) (drop a s)"

fun indexOf :: "string \<Rightarrow> char \<Rightarrow> nat option" where
  "indexOf [] c = None"
| "indexOf (x # xs) c = (if x = c then Some 0 else map_option Suc (indexOf xs c))"

section \<open>The runtime's \<open>URLSearchParams\<close> and plain objects\<close>

text \<open>
  \<open>new URLSearchParams(init)\<close> on a string: one leading \<open>?\<close> is dropped, the rest is
  split at \<open>&\<close>, empty pieces are skipped, each piece is split at its first \<open>=\<close>
  (no \<open>=\<close>: the value is empty), \<open>+\<close> becomes a space and \<open>%XY\<close> the byte \<open>XY\<close>.
  Characters stand for bytes here: the replacement of byte sequences that are not UTF-8
  by U+FFFD is left out.
\<close>

fun split_on :: "char \<Rightarrow> string \<Rightarrow> string list" where
  "split_on c [] = [[]]"
| "split_on c (x # xs) =
     (if x = c then [] # split_on c xs
      else (case split_on c xs of [] \<Rightarrow> [[x]] | y # ys \<Rightarrow> (x # y) # ys))"

definition hex_digit :: "char \<Rightarrow> nat option" where
  "hex_digit c =
     (let n = (of_char c :: nat) in
      if 48 \<le> n \<and> n \<le> 57 then Some (n - 48)
      else if 65 \<le> n \<and> n \<le> 70 then Some (n - 55)
      else if 97 \<le> n \<and> n \<le> 102 then Some (n - 87)
      else None)"

fun percent_decode :: "string \<Rightarrow> string" where
  "percent_decode (x # a # b # rest) =
     (if x = CHR ''%'' then
        (case (hex_digit a, hex_digit b) of
           (Some h, Some l) \<Rightarrow> char_of (16 * h + l) # percent_decode rest
         | _ \<Rightarrow> x # percent_decode (a # b # rest))
      else x # percent_decode (a # b # rest))"
| "percent_decode (x # xs) = x # percent_decode xs"
| "percent_decode [] = []"

definition form_decode :: "string \<Rightarrow> string" where
  "form_decode s = percent_decode (map (\<lambda>c. if c = CHR ''+'' then CHR '' '' else c) s)"

definition parse_pair :: "string \<Rightarrow> string \<times> string" where
  "parse_pair piece =
     (case indexOf piece (CHR ''='') of
        None \<Rightarrow> (form_decode piece, [])
      | Some i \<Rightarrow> (form_decode (take i piece), form_decode (drop (Suc i) piece)))"

definition URLSearchParams :: "string \<Rightarrow> (string \<times> string) list" where
  "URLSearchParams init =
     map parse_pair
       (filter (\<lambda>piece. piece \<noteq> [])
          (split_on (CHR ''&'') (if startsWith init ''?'' then slice init 1 else init)))"

text \<open>\<open>search.get(name)\<close>: the value of the first pair of that name, or null.\<close>

definition search_get :: "(string \<times> string) list \<Rightarrow> string \<Rightarrow> string option" where
  "search_get search name = map_of search name"

text \<open>
  \<open>params\<close> is a plain object with string values: its own properties in creation order.
  An assignment to an existing key keeps the key's place; an assignment of a string to
  \<open>__proto__\<close> reaches the setter of \<open>Object.prototype\<close>, which ignores it.
  \<open>Object.entries\<close> lists the keys that are array indices first, in ascending numeric
  order, then the other keys in creation order.
\<close>

type_synonym js_object = "(string \<times> string) list"

definition obj_set :: "string \<Rightarrow> string \<Rightarrow> js_object \<Rightarrow> js_object" where
  "obj_set k v obj =
     (if k = ''__proto__'' then obj
      else if k \<in> set (map fst obj) then map (\<lambda>kv. if fst kv = k then (k, v) else kv) obj
      else obj @ [(k, v)])"

definition obj_delete :: "string \<Rightarrow> js_object \<Rightarrow> js_object" where
  "obj_delete k obj = filter (\<lambda>kv. fst kv \<noteq> k) obj"

definition is_digit :: "char \<Rightarrow> bool" where
  "is_digit c = (48 \<le> (of_char c :: nat) \<and> (of_char c :: nat) \<le> 57)"

definition digits_value :: "string \<Rightarrow> nat" where
  "digits_value s = foldl (\<lambda>acc c. 10 * acc + ((of_char c :: nat) - 48)) 0 s"

definition array_index :: "string \<Rightarrow> nat option" where
  "array_index k =
     (if k \<noteq> [] \<and> list_all is_digit k \<and> (k = ''0'' \<or> take 1 k \<noteq> ''0'')
         \<and> digits_value k < 2 ^ 32 - 1
      then Some (digits_value k) else None)"

definition Object_entries :: "js_object \<Rightarrow> (string \<times> string) list" where
  "Object_entries obj =
     sort_key (\<lambda>kv. the (array_index (fst kv))) (filter (\<lambda>kv. array_index (fst kv) \<noteq> None) obj)
     @ filter (\<lambda>kv. array_index (fst kv) = None) obj"

section \<open>The Connection String Parser: \<open>parseConnectionString\<close> (index.ts, lines 136-175)\<close>

text \<open>Lines 145-150: the \<open>file:\<close> prefix.\<close>

definition strip_file_prefix :: "string \<Rightarrow> string" where
  "strip_file_prefix str =
     (if startsWith str ''file:'' then
        (let str1 = slice str 5 in
         if startsWith str1 ''///'' then slice str1 2 else str1)
      else str)"

text \<open>Lines 154-165: the query component, from the text after the \<open>?\<close>.\<close>

definition parse_params :: "string \<Rightarrow> js_object" where
  "parse_params query_text =
     (let search = URLSearchParams query_text;
          params = fold (\<lambda>kv obj. obj_set (fst kv) (snd kv) obj) search []
      in case search_get search ''udf_path'' of
           None \<Rightarrow> params
         | Some udfPath \<Rightarrow>
             if udfPath = [] then params
             else obj_delete ''udf_path''
                    (obj_set ''user_defined_executable_functions_config'' (udfPath @ ''/*.xml'')
                       (obj_set ''user_scripts_path'' udfPath
                          (obj_set ''--'' [] params))))"

text \<open>
  Lines 170-172. \<open>path.resolve\<close> belongs to the runtime and depends on the working
  directory: it is the parameter \<open>resolve\<close>.
\<close>

definition resolve_relative :: "(string \<Rightarrow> string) \<Rightarrow> string \<Rightarrow> string" where
  "resolve_relative resolve str =
     (if str \<noteq> [] \<and> take 1 str \<noteq> ''/'' \<and> str \<noteq> '':memory:'' then resolve str else str)"

text \<open>Lines 152-174: everything after the prefix has been handled.\<close>

definition parse_after_prefix :: "(string \<Rightarrow> string) \<Rightarrow> string \<Rightarrow> string \<times> js_object" where
  "parse_after_prefix resolve str =
     (case indexOf str (CHR ''?'') of
        None \<Rightarrow> (resolve_relative resolve str, [])
      | Some queryPos \<Rightarrow>
          (resolve_relative resolve (slice2 str 0 queryPos),
           parse_params (slice str (queryPos + 1))))"

definition parseConnectionString :: "(string \<Rightarrow> string) \<Rightarrow> string \<Rightarrow> string \<times> js_object" where
  "parseConnectionString resolve str =
     (if str = [] \<or> str = '':memory:'' then ('':memory:'', [])
      else parse_after_prefix resolve (strip_file_prefix str))"

section \<open>The Argument Marshaller and the stateless \<open>query\<close> (index.ts, lines 77-93, 177-196)\<close>

text \<open>
  \<open>buildArgv\<close> hands the native call the number of arguments and the table of their
  NUL-terminated encodings; the table is kept as the list of the strings.
\<close>

definition buildArgv :: "string list \<Rightarrow> nat \<times> string list" where
  "buildArgv args = (length args, args)"

text \<open>The parameter \<open>format\<close> defaults to \<open>CSV\<close> at every call site that leaves it out.\<close>

definition query :: "string \<Rightarrow> string \<Rightarrow> world \<Rightarrow> (exn + QueryResultWithStats) \<times> world" where
  "query queryString format w =
     (let queryArgs = [''clickhouse'', ''--multiquery'',
                       ''--output-format='' @ format, ''--query='' @ queryString]
      in case buildArgv queryArgs of (argc, argvPtr) \<Rightarrow>
         case query_stable_v2 argc argvPtr w of (resultPtr, w1) \<Rightarrow>
           if resultPtr = 0 then
             (Inl (CHDBError ''chDB call failed to return a result structure (null pointer).''), w1)
           else processLocalResultV2 resultPtr w1)"

section \<open>The Finalization Supervisor (index.ts, lines 66-75)\<close>

definition connectionRegistry_callback :: "pointer \<Rightarrow> world \<Rightarrow> world" where
  "connectionRegistry_callback connPtr w = close_conn connPtr w"

definition streamRegistry_callback :: "pointer \<times> pointer \<Rightarrow> world \<Rightarrow> world" where
  "streamRegistry_callback held w =
     (case held of (connPtr, streamPtr) \<Rightarrow>
        chdb_destroy_result streamPtr (chdb_streaming_cancel_query connPtr streamPtr w))"

text \<open>
  \<open>register(target, held)\<close> and \<open>register(target, held, token)\<close> add a registration;
  \<open>unregister(token)\<close> removes the registrations made with that token. The connection
  registry is given no token and \<open>unregister\<close> is never called on it, so its
  registrations are pairs.
\<close>

definition connectionRegistry_register :: "obj_id \<Rightarrow> pointer \<Rightarrow> world \<Rightarrow> world" where
  "connectionRegistry_register target held w =
     w\<lparr>connectionRegistry := connectionRegistry w @ [(target, held)]\<rparr>"

definition streamRegistry_register ::
  "obj_id \<Rightarrow> pointer \<times> pointer \<Rightarrow> obj_id \<Rightarrow> world \<Rightarrow> world" where
  "streamRegistry_register target held token w =
     w\<lparr>streamRegistry := streamRegistry w @ [(target, held, token)]\<rparr>"

definition streamRegistry_unregister :: "obj_id \<Rightarrow> world \<Rightarrow> world" where
  "streamRegistry_unregister token w =
     w\<lparr>streamRegistry := filter (\<lambda>r. snd (snd r) \<noteq> token) (streamRegistry w)\<rparr>"

text \<open>
  What a registry does once the object \<open>target\<close> has been collected: each registration
  of that target is removed and the callback is run on its held value.
\<close>

definition connectionRegistry_finalize :: "obj_id \<Rightarrow> world \<Rightarrow> world" where
  "connectionRegistry_finalize target w =
     fold (\<lambda>r. connectionRegistry_callback (snd r))
       (filter (\<lambda>r. fst r = target) (connectionRegistry w))
       (w\<lparr>connectionRegistry := filter (\<lambda>r. fst r \<noteq> target) (connectionRegistry w)\<rparr>)"

definition streamRegistry_finalize :: "obj_id \<Rightarrow> world \<Rightarrow> world" where
  "streamRegistry_finalize target w =
     fold (\<lambda>r. streamRegistry_callback (fst (snd r)))
       (filter (\<lambda>r. fst r = target) (streamRegistry w))
       (w\<lparr>streamRegistry := filter (\<lambda>r. fst r \<noteq> target) (streamRegistry w)\<rparr>)"

section \<open>The Connection Manager: class \<open>Connection\<close> (index.ts, lines 198-339)\<close>

record Connection =
  path :: string
  params :: js_object
  ptr :: pointer
  self :: obj_id

text \<open>Lines 210-226: one step of the loop over \<open>Object.entries(params)\<close>, then the list.\<close>

definition push_param :: "string \<times> string \<Rightarrow> string list \<Rightarrow> string list" where
  "push_param kv args =
     (case kv of (key, val) \<Rightarrow>
        if key = ''mode'' then (if val = ''ro'' then args @ [''--readonly=1''] else args)
        else if key = ''--'' then args @ [''--'']
        else if val = [] then args @ [''--'' @ key]
        else args @ [''--'' @ key @ ''='' @ val])"

definition Connection_args :: "string \<Rightarrow> js_object \<Rightarrow> string list" where
  "Connection_args pth prms =
     fold push_param (Object_entries prms)
       (if pth \<noteq> '':memory:'' then [''clickhouse''] @ [''--path='' @ pth] else [''clickhouse''])"

text \<open>The constructor, lines 204-240. The new object takes the next free identity.\<close>

definition Connection_new :: "(string \<Rightarrow> string) \<Rightarrow> string \<Rightarrow> world \<Rightarrow> (exn + Connection) \<times> world" where
  "Connection_new resolve connectionString w =
     (case parseConnectionString resolve connectionString of (pth, prms) \<Rightarrow>
      let this = next_obj w; w0 = w\<lparr>next_obj := Suc (next_obj w)\<rparr> in
      case buildArgv (Connection_args pth prms) of (argc, argvPtr) \<Rightarrow>
      case connect_chdb argc argvPtr w0 of (p, w1) \<Rightarrow>
        if p = 0 then
          (Inl (CHDBError (''Failed to connect to chDB connection at path: '' @ pth)), w1)
        else
          (Inr \<lparr>path = pth, params = prms, ptr = p, self = this\<rparr>,
           connectionRegistry_register this p w1))"

definition getConnPtr :: "Connection \<Rightarrow> world \<Rightarrow> (exn + pointer) \<times> world" where
  "getConnPtr this w =
     (case ffi_read_ptr (ptr this) 0 w of (p, w1) \<Rightarrow>
        if p = 0 then
          (Inl (CHDBError
             ''Invalid connection pointer. The connection might be corrupted or closed.''), w1)
        else (Inr p, w1))"

definition Connection_query ::
  "Connection \<Rightarrow> string \<Rightarrow> string \<Rightarrow> world \<Rightarrow> (exn + QueryResultWithStats) \<times> world" where
  "Connection_query this queryString format w =
     (case getConnPtr this w of
        (Inl e, w1) \<Rightarrow> (Inl e, w1)
      | (Inr connPtr, w1) \<Rightarrow>
          (case query_conn connPtr queryString format w1 of (resultPtr, w2) \<Rightarrow>
             if resultPtr = 0 then
               (Inl (CHDBError ''chDB call failed to return a result structure (null pointer).''),
                w2)
             else processLocalResultV2 resultPtr w2))"

section \<open>The Streaming Cursor: the generator \<open>iterate\<close> (index.ts, lines 272-338)\<close>

record StreamContext =
  connPtr :: pointer
  streamPtr :: pointer
  ctx_id :: obj_id

text \<open>
  How a run of the generator's body ends: at the \<open>yield\<close>, by leaving the loop
  (\<open>break\<close>, the generator returns), or by a \<open>throw\<close>.
\<close>

datatype completion = Yield QueryResultWithStats | Return | Throw exn

text \<open>
  Lines 290-315. Every pass through \<open>while (true)\<close> ends at the \<open>yield\<close>, at a
  \<open>break\<close> or at a \<open>throw\<close>, so between two suspensions the loop runs one pass.
\<close>

definition iterate_loop :: "StreamContext \<Rightarrow> world \<Rightarrow> completion \<times> world" where
  "iterate_loop ctx w =
     (case chdb_streaming_fetch_result (connPtr ctx) (streamPtr ctx) w of
        (resultChunkPtr, w1) \<Rightarrow>
          if resultChunkPtr = 0 then
            (case chdb_streaming_result_error (streamPtr ctx) w1 of (streamErrorPtr, w2) \<Rightarrow>
               if streamErrorPtr \<noteq> 0 then
                 (case CString streamErrorPtr w2 of (errorMessage, w3) \<Rightarrow>
                    (Throw (CHDBError (''chDB Streaming Fetch Error: '' @ errorMessage)), w3))
               else (Return, w2))
          else
            (case ffi_read_ptr resultChunkPtr 0 w1 of (bufPtrInChunk, w2) \<Rightarrow>
               if bufPtrInChunk = 0 then (Return, free_result_v2 resultChunkPtr w2)
               else
                 (case processLocalResultV2 resultChunkPtr w2 of
                    (Inl e, w3) \<Rightarrow> (Throw e, w3)
                  | (Inr r, w3) \<Rightarrow> (Yield r, w3))))"

text \<open>Lines 280-288, then the loop: the body from its start.\<close>

definition iterate_start :: "StreamContext \<Rightarrow> world \<Rightarrow> completion \<times> world" where
  "iterate_start ctx w =
     (case chdb_streaming_result_error (streamPtr ctx) w of (initialErrorPtr, w1) \<Rightarrow>
        if initialErrorPtr \<noteq> 0 then
          (case CString initialErrorPtr w1 of (errorMessage, w2) \<Rightarrow>
             (Throw (CHDBError (''chDB Streaming Initialization Error: '' @ errorMessage)), w2))
        else iterate_loop ctx w1)"

text \<open>Lines 316-319: the \<open>finally\<close> block.\<close>

definition iterate_finally :: "StreamContext \<Rightarrow> world \<Rightarrow> world" where
  "iterate_finally ctx w =
     chdb_destroy_result (streamPtr ctx) (streamRegistry_unregister (ctx_id ctx) w)"

text \<open>
  A generator object is suspended at its start, suspended at a \<open>yield\<close>, or completed.
  \<open>next()\<close> resumes the body; when the body leaves the \<open>try\<close> other than by \<open>yield\<close>, the
  \<open>finally\<close> block runs and the generator is completed. \<open>return()\<close>, which \<open>for ... of\<close>
  calls when its body breaks or throws, completes a generator suspended at its start
  without running anything, and runs the \<open>finally\<close> block of one suspended at the
  \<open>yield\<close>.
\<close>

datatype generator_state = SuspendedStart | SuspendedYield | Completed

record generator =
  gen_state :: generator_state
  ctx :: StreamContext

definition resume :: "(StreamContext \<Rightarrow> world \<Rightarrow> completion \<times> world) \<Rightarrow> generator \<Rightarrow> world
    \<Rightarrow> completion \<times> generator \<times> world" where
  "resume body g w =
     (case body (ctx g) w of
        (Yield r, w1) \<Rightarrow> (Yield r, g\<lparr>gen_state := SuspendedYield\<rparr>, w1)
      | (Return, w1) \<Rightarrow> (Return, g\<lparr>gen_state := Completed\<rparr>, iterate_finally (ctx g) w1)
      | (Throw e, w1) \<Rightarrow> (Throw e, g\<lparr>gen_state := Completed\<rparr>, iterate_finally (ctx g) w1))"

definition iterate_next :: "generator \<Rightarrow> world \<Rightarrow> completion \<times> generator \<times> world" where
  "iterate_next g w =
     (case gen_state g of
        SuspendedStart \<Rightarrow> resume iterate_start g w
      | SuspendedYield \<Rightarrow> resume iterate_loop g w
      | Completed \<Rightarrow> (Return, g, w))"

definition iterate_return :: "generator \<Rightarrow> world \<Rightarrow> generator \<times> world" where
  "iterate_return g w =
     (case gen_state g of
        SuspendedStart \<Rightarrow> (g\<lparr>gen_state := Completed\<rparr>, w)
      | SuspendedYield \<Rightarrow> (g\<lparr>gen_state := Completed\<rparr>, iterate_finally (ctx g) w)
      | Completed \<Rightarrow> (g, w))"

text \<open>\<open>Connection.stream\<close>, lines 322-337.\<close>

definition Connection_stream ::
  "Connection \<Rightarrow> string \<Rightarrow> string \<Rightarrow> world \<Rightarrow> (exn + generator) \<times> world" where
  "Connection_stream this queryString format w =
     (case getConnPtr this w of
        (Inl e, w1) \<Rightarrow> (Inl e, w1)
      | (Inr cp, w1) \<Rightarrow>
          (case query_conn_streaming cp queryString format w1 of (sp, w2) \<Rightarrow>
             if sp = 0 then (Inl (CHDBError ''Failed to initiate chDB streaming query.''), w2)
             else
               (let c = \<lparr>connPtr = cp, streamPtr = sp, ctx_id = next_obj w2\<rparr>;
                    w3 = streamRegistry_register (ctx_id c) (cp, sp) (ctx_id c)
                           (w2\<lparr>next_obj := Suc (next_obj w2)\<rparr>)
                in (Inr \<lparr>gen_state = SuspendedStart, ctx = c\<rparr>, w3))))"

text \<open>
  A consumer: \<open>for (const chunk of stream) { ... }\<close> whose body takes \<open>n\<close> chunks and
  leaves the loop (by \<open>break\<close>, or by an error of its own) on the chunk after them.
  It ends with the chunks it saw, or with the error the generator threw.
\<close>

fun for_of :: "nat \<Rightarrow> generator \<Rightarrow> world \<Rightarrow> (exn + QueryResultWithStats list) \<times> generator \<times> world" where
  "for_of 0 g w =
     (case iterate_next g w of
        (Yield r, g1, w1) \<Rightarrow> (case iterate_return g1 w1 of (g2, w2) \<Rightarrow> (Inr [r], g2, w2))
      | (Return, g1, w1) \<Rightarrow> (Inr [], g1, w1)
      | (Throw e, g1, w1) \<Rightarrow> (Inl e, g1, w1))"
| "for_of (Suc n) g w =
     (case iterate_next g w of
        (Yield r, g1, w1) \<Rightarrow>
          (case for_of n g1 w1 of
             (Inl e, g2, w2) \<Rightarrow> (Inl e, g2, w2)
           | (Inr rs, g2, w2) \<Rightarrow> (Inr (r # rs), g2, w2))
      | (Return, g1, w1) \<Rightarrow> (Inr [], g1, w1)
      | (Throw e, g1, w1) \<Rightarrow> (Inl e, g1, w1))"

text \<open>
  Calling a method of a \<open>Connection\<close> by name. The class declares \<open>getConnPtr\<close>,
  \<open>query\<close> and \<open>stream\<close> and nothing else; calling any other property is the runtime's
  \<open>TypeError\<close>, raised before anything of the module runs.
\<close>

datatype js_value =
    Value_pointer pointer
  | Value_result QueryResultWithStats
  | Value_generator generator

definition wrap :: "('a \<Rightarrow> js_value) \<Rightarrow> (exn + 'a) \<times> world \<Rightarrow> (exn + js_value) \<times> world" where
  "wrap f rw = (case rw of (Inl e, w) \<Rightarrow> (Inl e, w) | (Inr v, w) \<Rightarrow> (Inr (f v), w))"

definition Connection_call ::
  "Connection \<Rightarrow> string \<Rightarrow> string \<Rightarrow> string \<Rightarrow> world \<Rightarrow> (exn + js_value) \<times> world" where
  "Connection_call this method queryString format w =
     (if method = ''getConnPtr'' then wrap Value_pointer (getConnPtr this w)
      else if method = ''query'' then wrap Value_result (Connection_query this queryString format w)
      else if method = ''stream'' then
        wrap Value_generator (Connection_stream this queryString format w)
      else (Inl (TypeError (method @ '' is not a function'')), w))"

section \<open>Reading the trace\<close>

fun frees :: "event list \<Rightarrow> pointer list" where
  "frees [] = []"
| "frees (Free_result_v2 p # es) = p # frees es"
| "frees (e # es) = frees es"

fun closes :: "event list \<Rightarrow> pointer list" where
  "closes [] = []"
| "closes (Close_conn p # es) = p # closes es"
| "closes (e # es) = closes es"

fun cancels :: "event list \<Rightarrow> (pointer \<times> pointer) list" where
  "cancels [] = []"
| "cancels (Chdb_streaming_cancel_query c s # es) = (c, s) # cancels es"
| "cancels (e # es) = cancels es"

fun destroys :: "event list \<Rightarrow> pointer list" where
  "destroys [] = []"
| "destroys (Chdb_destroy_result s # es) = s # destroys es"
| "destroys (e # es) = destroys es"

text \<open>What the next call of native fetch, and of the native error check, will answer.\<close>

definition fetch_answer :: "world \<Rightarrow> pointer" where
  "fetch_answer w = fst (next_return (fetch_returns w))"

definition error_answer :: "world \<Rightarrow> pointer" where
  "error_answer w = fst (next_return (error_returns w))"

text \<open>What the next native connect, query and streaming-start call will answer.\<close>

definition connect_answer :: "world \<Rightarrow> pointer" where
  "connect_answer w = fst (next_return (connect_returns w))"

definition query_answer :: "world \<Rightarrow> pointer" where
  "query_answer w = fst (next_return (query_returns w))"

definition streaming_answer :: "world \<Rightarrow> pointer" where
  "streaming_answer w = fst (next_return (streaming_returns w))"

text \<open>
  The arguments one parameter contributes, as a table: \<open>fold_push_param\<close> below proves
  that the loop of the constructor appends exactly these, parameter by parameter.
\<close>

definition param_flags :: "string \<times> string \<Rightarrow> string list" where
  "param_flags kv =
     (if fst kv = ''mode'' then (if snd kv = ''ro'' then [''--readonly=1''] else [])
      else if fst kv = ''--'' then [''--'']
      else if snd kv = [] then [''--'' @ fst kv]
      else [''--'' @ fst kv @ ''='' @ snd kv])"

text \<open>
  The outcome and the events of \<open>processLocalResultV2\<close> written as functions of the
  memory alone; \<open>processLocalResultV2_eq\<close> below proves that they are.
\<close>

definition decode :: "memory \<Rightarrow> pointer \<Rightarrow> exn + QueryResultWithStats" where
  "decode m p =
     (if read_ptr m p 48 \<noteq> 0 then
        Inl (CHDBError (''chDB Error: '' @ cstring m (read_ptr m p 48)))
      else
        (case cstring_len m (read_ptr m p 0) (read_u64 m p 8) of
           Inl e \<Rightarrow> Inl e
         | Inr d \<Rightarrow>
             Inr \<lparr>data = d,
                  stats = \<lparr>elapsed = read_f64 m p 24, rowsRead = read_u64 m p 32,
                           bytesRead = read_u64 m p 40\<rparr>\<rparr>))"

definition decode_events :: "memory \<Rightarrow> pointer \<Rightarrow> event list" where
  "decode_events m p =
     (if read_ptr m p 48 \<noteq> 0 then
        [Read_ptr p 48, Read_CString (read_ptr m p 48), Free_result_v2 p]
      else
        (case cstring_len m (read_ptr m p 0) (read_u64 m p 8) of
           Inl e \<Rightarrow>
             [Read_ptr p 48, Read_ptr p 0, Read_u64 p 8,
              Read_CString_len (read_ptr m p 0) (read_u64 m p 8), Free_result_v2 p]
         | Inr d \<Rightarrow>
             [Read_ptr p 48, Read_ptr p 0, Read_u64 p 8,
              Read_CString_len (read_ptr m p 0) (read_u64 m p 8),
              Read_f64 p 24, Read_u64 p 32, Read_u64 p 40, Free_result_v2 p]))"

section \<open>A concrete native engine for the examples\<close>

text \<open>
  Block 100 holds the four bytes \<open>123\n\<close> at 500 and no error; block 200 holds the error
  message \<open>boom\<close> at 600; block 300 has a null data pointer and no error; block 400 has
  the data pointer 500, the length 0 and no error, and the runtime refuses to decode it;
  700 is the text of a stream error; 900 is a connection handle whose slot holds 901;
  800 is a stream handle.
\<close>

definition example_mem :: memory where
  "example_mem =
     \<lparr>read_ptr = (\<lambda>p off.
         if p = 100 \<and> off = 0 then 500
         else if p = 200 \<and> off = 0 then 500
         else if p = 200 \<and> off = 48 then 600
         else if p = 400 \<and> off = 0 then 500
         else if p = 900 \<and> off = 0 then 901
         else 0),
      read_u64 = (\<lambda>p off.
         if off = 8 then (if p = 400 then 0 else 4) else if off = 32 then 1 else 0),
      read_f64 = (\<lambda>p off. 0),
      cstring = (\<lambda>p. if p = 600 then ''boom'' else if p = 700 then ''stream failed'' else []),
      cstring_len = (\<lambda>p n.
         if p = 0 then Inr []
         else if n = 0 then Inl (TypeError ''CString: the length is 0'')
         else if p = 500 \<and> n = 4 then Inr (''123'' @ [CHR 0x0A])
         else Inr [])\<rparr>"

definition example_world :: world where
  "example_world =
     \<lparr>mem = example_mem, trace = [], query_returns = [], connect_returns = [],
      streaming_returns = [], error_returns = [], fetch_returns = [],
      connectionRegistry = [], streamRegistry = [], next_obj = 0\<rparr>"

definition example_conn :: Connection where
  "example_conn = \<lparr>path = '':memory:'', params = [], ptr = 900, self = 0\<rparr>"

definition example_ctx :: StreamContext where
  "example_ctx = \<lparr>connPtr = 901, streamPtr = 800, ctx_id = 1\<rparr>"

definition example_chunk :: QueryResultWithStats where
  "example_chunk =
     \<lparr>data = ''123'' @ [CHR 0x0A], stats = \<lparr>elapsed = 0, rowsRead = 1, bytesRead = 0\<rparr>\<rparr>"

text \<open>
  The world after \<open>new Connection(":memory:")\<close> in the example world, native connect
  having answered 900: the connection is the object 0, registered with its handle.
\<close>

definition connected_world :: world where
  "connected_world =
     example_world\<lparr>next_obj := 1, connect_returns := [],
        trace := [Connect_chdb 1 [''clickhouse'']], connectionRegistry := [(0, 900)]\<rparr>"

section \<open>Facts about the native calls and the decoder\<close>

lemmas read_defs = emit_def ffi_read_ptr_def ffi_read_u64_def ffi_read_f64_def CString_def
  CString_len_def free_result_v2_def

lemmas offsets = bufOffset_def lenOffset_def elapsedOffset_def rowsReadOffset_def
  bytesReadOffset_def errorMessageOffset_def

lemma frees_append: "frees (xs @ ys) = frees xs @ frees ys"
  by (induction xs rule: frees.induct) simp_all

lemma closes_append: "closes (xs @ ys) = closes xs @ closes ys"
  by (induction xs rule: closes.induct) simp_all

lemma cancels_append: "cancels (xs @ ys) = cancels xs @ cancels ys"
  by (induction xs rule: cancels.induct) simp_all

lemma destroys_append: "destroys (xs @ ys) = destroys xs @ destroys ys"
  by (induction xs rule: destroys.induct) simp_all

text \<open>
  Whatever the body of a \<open>try\<close> does, return or raise, the \<open>finally\<close> block runs once
  after it and the outcome of the body stands.
\<close>

lemma try_finally_always_releases:
  "try_finally body fin w = (fst (body w), fin (snd (body w)))"
  by (simp add: try_finally_def split_beta)

lemma processLocalResultV2_error_path:
  assumes "read_ptr (mem w) p 48 \<noteq> 0"
  shows "processLocalResultV2 p w =
    (Inl (CHDBError (''chDB Error: '' @ cstring (mem w) (read_ptr (mem w) p 48))),
     w\<lparr>trace := trace w @
         [Read_ptr p 48, Read_CString (read_ptr (mem w) p 48), Free_result_v2 p]\<rparr>)"
  using assms
  by (simp add: processLocalResultV2_def processLocalResultV2_body_def try_finally_def
      read_defs offsets)

lemma processLocalResultV2_success_path:
  assumes "read_ptr (mem w) p 48 = 0"
    and "cstring_len (mem w) (read_ptr (mem w) p 0) (read_u64 (mem w) p 8) = Inr d"
  shows "processLocalResultV2 p w =
    (Inr \<lparr>data = d,
          stats = \<lparr>elapsed = read_f64 (mem w) p 24, rowsRead = read_u64 (mem w) p 32,
                   bytesRead = read_u64 (mem w) p 40\<rparr>\<rparr>,
     w\<lparr>trace := trace w @ [Read_ptr p 48, Read_ptr p 0, Read_u64 p 8,
        Read_CString_len (read_ptr (mem w) p 0) (read_u64 (mem w) p 8),
        Read_f64 p 24, Read_u64 p 32, Read_u64 p 40, Free_result_v2 p]\<rparr>)"
  using assms
  by (simp add: processLocalResultV2_def processLocalResultV2_body_def try_finally_def
      read_defs offsets)

lemma processLocalResultV2_exception_path:
  assumes "read_ptr (mem w) p 48 = 0"
    and "cstring_len (mem w) (read_ptr (mem w) p 0) (read_u64 (mem w) p 8) = Inl e"
  shows "processLocalResultV2 p w =
    (Inl e,
     w\<lparr>trace := trace w @ [Read_ptr p 48, Read_ptr p 0, Read_u64 p 8,
        Read_CString_len (read_ptr (mem w) p 0) (read_u64 (mem w) p 8),
        Free_result_v2 p]\<rparr>)"
  using assms
  by (simp add: processLocalResultV2_def processLocalResultV2_body_def try_finally_def
      read_defs offsets)

lemma processLocalResultV2_eq:
  "processLocalResultV2 p w =
     (decode (mem w) p, w\<lparr>trace := trace w @ decode_events (mem w) p\<rparr>)"
proof (cases "read_ptr (mem w) p 48 = 0")
  case False
  then show ?thesis
    by (simp add: processLocalResultV2_error_path decode_def decode_events_def)
next
  case True
  then show ?thesis
    by (cases "cstring_len (mem w) (read_ptr (mem w) p 0) (read_u64 (mem w) p 8)")
       (simp_all add: processLocalResultV2_success_path processLocalResultV2_exception_path
          decode_def decode_events_def)
qed

lemma frees_decode_events: "frees (decode_events m p) = [p]"
  by (simp add: decode_events_def split: sum.splits)

lemma fetch_eq:
  "chdb_streaming_fetch_result c s w =
     (fetch_answer w, w\<lparr>fetch_returns := snd (next_return (fetch_returns w)),
        trace := trace w @ [Chdb_streaming_fetch_result c s]\<rparr>)"
  by (simp add: chdb_streaming_fetch_result_def emit_def fetch_answer_def split_beta)

lemma error_eq:
  "chdb_streaming_result_error s w =
     (error_answer w, w\<lparr>error_returns := snd (next_return (error_returns w)),
        trace := trace w @ [Chdb_streaming_result_error s]\<rparr>)"
  by (simp add: chdb_streaming_result_error_def emit_def error_answer_def split_beta)

section \<open>One pass of the streaming loop, case by case\<close>

lemma iterate_loop_fetch_null_error:
  assumes "fetch_answer w = 0" "error_answer w \<noteq> 0"
  shows "iterate_loop c w =
     (Throw (CHDBError (''chDB Streaming Fetch Error: '' @ cstring (mem w) (error_answer w))),
      w\<lparr>fetch_returns := snd (next_return (fetch_returns w)),
        error_returns := snd (next_return (error_returns w)),
        trace := trace w @ [Chdb_streaming_fetch_result (connPtr c) (streamPtr c),
                 Chdb_streaming_result_error (streamPtr c), Read_CString (error_answer w)]\<rparr>)"
  using assms
  by (simp add: iterate_loop_def fetch_eq error_eq read_defs error_answer_def)

lemma iterate_loop_fetch_null_done:
  assumes "fetch_answer w = 0" "error_answer w = 0"
  shows "iterate_loop c w =
     (Return,
      w\<lparr>fetch_returns := snd (next_return (fetch_returns w)),
        error_returns := snd (next_return (error_returns w)),
        trace := trace w @ [Chdb_streaming_fetch_result (connPtr c) (streamPtr c),
                 Chdb_streaming_result_error (streamPtr c)]\<rparr>)"
  using assms
  by (simp add: iterate_loop_def fetch_eq error_eq read_defs error_answer_def)

lemma iterate_loop_empty_block:
  assumes "fetch_answer w \<noteq> 0" "read_ptr (mem w) (fetch_answer w) 0 = 0"
  shows "iterate_loop c w =
     (Return,
      w\<lparr>fetch_returns := snd (next_return (fetch_returns w)),
        trace := trace w @ [Chdb_streaming_fetch_result (connPtr c) (streamPtr c),
                 Read_ptr (fetch_answer w) 0, Free_result_v2 (fetch_answer w)]\<rparr>)"
  using assms
  by (simp add: iterate_loop_def fetch_eq error_eq read_defs)

lemma iterate_loop_block:
  assumes "fetch_answer w \<noteq> 0" "read_ptr (mem w) (fetch_answer w) 0 \<noteq> 0"
  shows "iterate_loop c w =
     ((case decode (mem w) (fetch_answer w) of Inl e \<Rightarrow> Throw e | Inr r \<Rightarrow> Yield r),
      w\<lparr>fetch_returns := snd (next_return (fetch_returns w)),
        trace := trace w @ [Chdb_streaming_fetch_result (connPtr c) (streamPtr c),
                 Read_ptr (fetch_answer w) 0] @ decode_events (mem w) (fetch_answer w)\<rparr>)"
  using assms
  by (simp add: iterate_loop_def fetch_eq error_eq read_defs processLocalResultV2_eq
       split: sum.splits)

lemma iterate_start_error:
  assumes "error_answer w \<noteq> 0"
  shows "iterate_start c w =
     (Throw (CHDBError
        (''chDB Streaming Initialization Error: '' @ cstring (mem w) (error_answer w))),
      w\<lparr>error_returns := snd (next_return (error_returns w)),
        trace := trace w @
          [Chdb_streaming_result_error (streamPtr c), Read_CString (error_answer w)]\<rparr>)"
  using assms
  by (simp add: iterate_start_def error_eq read_defs)

lemma iterate_start_ok:
  assumes "error_answer w = 0"
  shows "iterate_start c w =
     iterate_loop c (w\<lparr>error_returns := snd (next_return (error_returns w)),
        trace := trace w @ [Chdb_streaming_result_error (streamPtr c)]\<rparr>)"
  using assms
  by (simp add: iterate_start_def error_eq read_defs)

lemma iterate_finally_eq:
  "iterate_finally c w =
     w\<lparr>streamRegistry := filter (\<lambda>r. snd (snd r) \<noteq> ctx_id c) (streamRegistry w),
       trace := trace w @ [Chdb_destroy_result (streamPtr c)]\<rparr>"
  by (simp add: iterate_finally_def streamRegistry_unregister_def chdb_destroy_result_def emit_def)


lemmas example_defs = example_world_def example_mem_def example_ctx_def example_chunk_def
  example_conn_def

section \<open>Facts about the public operations\<close>

lemma connect_eq:
  "connect_chdb argc argv w =
     (connect_answer w, w\<lparr>connect_returns := snd (next_return (connect_returns w)),
        trace := trace w @ [Connect_chdb argc argv]\<rparr>)"
  by (simp add: connect_chdb_def emit_def connect_answer_def split_beta)

lemma query_stable_eq:
  "query_stable_v2 argc argv w =
     (query_answer w, w\<lparr>query_returns := snd (next_return (query_returns w)),
        trace := trace w @ [Query_stable_v2 argc argv]\<rparr>)"
  by (simp add: query_stable_v2_def emit_def query_answer_def split_beta)

lemma query_conn_eq:
  "query_conn c q f w =
     (query_answer w, w\<lparr>query_returns := snd (next_return (query_returns w)),
        trace := trace w @ [Query_conn c q f]\<rparr>)"
  by (simp add: query_conn_def emit_def query_answer_def split_beta)

lemma streaming_eq:
  "query_conn_streaming c q f w =
     (streaming_answer w, w\<lparr>streaming_returns := snd (next_return (streaming_returns w)),
        trace := trace w @ [Query_conn_streaming c q f]\<rparr>)"
  by (simp add: query_conn_streaming_def emit_def streaming_answer_def split_beta)

lemma getConnPtr_eq:
  "getConnPtr c w =
     (if read_ptr (mem w) (ptr c) 0 = 0 then
        Inl (CHDBError ''Invalid connection pointer. The connection might be corrupted or closed.'')
      else Inr (read_ptr (mem w) (ptr c) 0),
      w\<lparr>trace := trace w @ [Read_ptr (ptr c) 0]\<rparr>)"
  by (simp add: getConnPtr_def read_defs)

lemma Connection_new_eq:
  "Connection_new resolve dsn w =
     (let pth = fst (parseConnectionString resolve dsn);
          prms = snd (parseConnectionString resolve dsn);
          args = Connection_args pth prms
      in if connect_answer w = 0 then
           (Inl (CHDBError (''Failed to connect to chDB connection at path: '' @ pth)),
            w\<lparr>next_obj := Suc (next_obj w),
              connect_returns := snd (next_return (connect_returns w)),
              trace := trace w @ [Connect_chdb (length args) args]\<rparr>)
         else
           (Inr \<lparr>path = pth, params = prms, ptr = connect_answer w, self = next_obj w\<rparr>,
            w\<lparr>next_obj := Suc (next_obj w),
              connect_returns := snd (next_return (connect_returns w)),
              trace := trace w @ [Connect_chdb (length args) args],
              connectionRegistry := connectionRegistry w @ [(next_obj w, connect_answer w)]\<rparr>))"
  by (simp add: Connection_new_def connect_eq buildArgv_def connectionRegistry_register_def
      connect_answer_def split_beta Let_def)

lemma query_eq:
  "query q f w =
     (let args = [''clickhouse'', ''--multiquery'', ''--output-format='' @ f, ''--query='' @ q];
          w1 = w\<lparr>query_returns := snd (next_return (query_returns w)),
                 trace := trace w @ [Query_stable_v2 4 args]\<rparr>
      in if query_answer w = 0 then
           (Inl (CHDBError ''chDB call failed to return a result structure (null pointer).''), w1)
         else (decode (mem w) (query_answer w),
               w1\<lparr>trace := trace w1 @ decode_events (mem w) (query_answer w)\<rparr>))"
  by (simp add: query_def query_stable_eq buildArgv_def processLocalResultV2_eq Let_def)

lemma Connection_query_eq:
  "Connection_query c q f w =
     (if read_ptr (mem w) (ptr c) 0 = 0 then
        (Inl (CHDBError ''Invalid connection pointer. The connection might be corrupted or closed.''),
         w\<lparr>trace := trace w @ [Read_ptr (ptr c) 0]\<rparr>)
      else if query_answer w = 0 then
        (Inl (CHDBError ''chDB call failed to return a result structure (null pointer).''),
         w\<lparr>query_returns := snd (next_return (query_returns w)),
           trace := trace w @ [Read_ptr (ptr c) 0, Query_conn (read_ptr (mem w) (ptr c) 0) q f]\<rparr>)
      else
        (decode (mem w) (query_answer w),
         w\<lparr>query_returns := snd (next_return (query_returns w)),
           trace := trace w @ [Read_ptr (ptr c) 0, Query_conn (read_ptr (mem w) (ptr c) 0) q f]
             @ decode_events (mem w) (query_answer w)\<rparr>))"
  by (simp add: Connection_query_def getConnPtr_eq query_conn_eq processLocalResultV2_eq
      query_answer_def)

lemma Connection_stream_eq:
  "Connection_stream c q f w =
     (if read_ptr (mem w) (ptr c) 0 = 0 then
        (Inl (CHDBError ''Invalid connection pointer. The connection might be corrupted or closed.''),
         w\<lparr>trace := trace w @ [Read_ptr (ptr c) 0]\<rparr>)
      else if streaming_answer w = 0 then
        (Inl (CHDBError ''Failed to initiate chDB streaming query.''),
         w\<lparr>streaming_returns := snd (next_return (streaming_returns w)),
           trace := trace w @
             [Read_ptr (ptr c) 0, Query_conn_streaming (read_ptr (mem w) (ptr c) 0) q f]\<rparr>)
      else
        (Inr \<lparr>gen_state = SuspendedStart,
              ctx = \<lparr>connPtr = read_ptr (mem w) (ptr c) 0, streamPtr = streaming_answer w,
                     ctx_id = next_obj w\<rparr>\<rparr>,
         w\<lparr>streaming_returns := snd (next_return (streaming_returns w)),
           trace := trace w @
             [Read_ptr (ptr c) 0, Query_conn_streaming (read_ptr (mem w) (ptr c) 0) q f],
           next_obj := Suc (next_obj w),
           streamRegistry := streamRegistry w @
             [(next_obj w, (read_ptr (mem w) (ptr c) 0, streaming_answer w), next_obj w)]\<rparr>))"
  by (simp add: Connection_stream_def getConnPtr_eq streaming_eq streamRegistry_register_def
      streaming_answer_def Let_def)


lemma fst_resume:
  "fst (resume body g w) = fst (body (ctx g) w)"
  by (simp add: resume_def split: prod.splits completion.splits)




lemmas string_defs = startsWith_def slice_def slice2_def

lemmas url_defs = URLSearchParams_def parse_pair_def form_decode_def search_get_def

lemmas obj_defs = obj_set_def obj_delete_def Object_entries_def array_index_def is_digit_def
  digits_value_def

lemmas parse_defs = parseConnectionString_def parse_after_prefix_def strip_file_prefix_def
  parse_params_def resolve_relative_def

lemma fold_push_param: "fold push_param kvs args = args @ concat (map param_flags kvs)"
  by (induction kvs arbitrary: args) (auto simp: push_param_def param_flags_def)

lemma closes_decode_events: "closes (decode_events m p) = []"
  by (simp add: decode_events_def split: sum.splits)

lemma Connection_call_other:
  "method \<noteq> ''getConnPtr'' \<Longrightarrow> method \<noteq> ''query'' \<Longrightarrow> method \<noteq> ''stream'' \<Longrightarrow>
   Connection_call c method q f w = (Inl (TypeError (method @ '' is not a function'')), w)"
  by (simp add: Connection_call_def)

lemma Connection_query_never_closes:
  "closes (new_events w (snd (Connection_query c q f w))) = []"
  by (simp add: Connection_query_eq new_events_def closes_append closes_decode_events)

lemma Connection_stream_never_closes:
  "closes (new_events w (snd (Connection_stream c q f w))) = []"
  by (simp add: Connection_stream_eq new_events_def)

lemma example_connect:
  "Connection_new (\<lambda>p. p) '':memory:'' (example_world\<lparr>connect_returns := [900]\<rparr>) =
     (Inr example_conn, connected_world)"
  by (simp add: Connection_new_eq Let_def parseConnectionString_def connect_answer_def
      Connection_args_def Object_entries_def example_conn_def connected_world_def
      example_world_def)

section \<open>The cleanup of a stream on every exit\<close>

text \<open>
  No pass of the loop cancels or destroys anything; a resumption of the body either
  stops at the \<open>yield\<close> or completes the generator with one destroy; and a
  \<open>for ... of\<close> over a generator that is not completed ends, however it ends, with the
  generator completed, one destroy of the stream, no cancel, and no registration left
  under the context's token.
\<close>

lemma cancels_decode_events: "cancels (decode_events m p) = []"
  by (simp add: decode_events_def split: sum.splits)

lemma destroys_decode_events: "destroys (decode_events m p) = []"
  by (simp add: decode_events_def split: sum.splits)

lemma iterate_loop_quiet:
  "\<exists>evs. trace (snd (iterate_loop c w)) = trace w @ evs \<and> cancels evs = [] \<and> destroys evs = []
     \<and> streamRegistry (snd (iterate_loop c w)) = streamRegistry w"
proof -
  consider (a) "fetch_answer w = 0" "error_answer w \<noteq> 0"
    | (b) "fetch_answer w = 0" "error_answer w = 0"
    | (c) "fetch_answer w \<noteq> 0" "read_ptr (mem w) (fetch_answer w) 0 = 0"
    | (d) "fetch_answer w \<noteq> 0" "read_ptr (mem w) (fetch_answer w) 0 \<noteq> 0"
    by blast
  then show ?thesis
  proof cases
    case a then show ?thesis by (simp add: iterate_loop_fetch_null_error)
  next
    case b then show ?thesis by (simp add: iterate_loop_fetch_null_done)
  next
    case c then show ?thesis by (simp add: iterate_loop_empty_block)
  next
    case d then show ?thesis
      by (simp add: iterate_loop_block cancels_decode_events destroys_decode_events)
  qed
qed

lemma iterate_start_quiet:
  "\<exists>evs. trace (snd (iterate_start c w)) = trace w @ evs \<and> cancels evs = [] \<and> destroys evs = []
     \<and> streamRegistry (snd (iterate_start c w)) = streamRegistry w"
proof (cases "error_answer w = 0")
  case True
  let ?w1 = "w\<lparr>error_returns := snd (next_return (error_returns w)),
        trace := trace w @ [Chdb_streaming_result_error (streamPtr c)]\<rparr>"
  obtain evs where "trace (snd (iterate_loop c ?w1)) = trace ?w1 @ evs" "cancels evs = []"
    "destroys evs = []" "streamRegistry (snd (iterate_loop c ?w1)) = streamRegistry ?w1"
    using iterate_loop_quiet [of c ?w1] by blast
  then have "trace (snd (iterate_start c w)) = trace w @ (Chdb_streaming_result_error (streamPtr c) # evs)
     \<and> cancels (Chdb_streaming_result_error (streamPtr c) # evs) = []
     \<and> destroys (Chdb_streaming_result_error (streamPtr c) # evs) = []
     \<and> streamRegistry (snd (iterate_start c w)) = streamRegistry w"
    using True by (simp add: iterate_start_ok)
  then show ?thesis by blast
next
  case False
  then show ?thesis by (simp add: iterate_start_error)
qed

lemma resume_step:
  assumes body: "\<exists>evs. trace (snd (body (ctx g) w)) = trace w @ evs \<and> cancels evs = [] \<and> destroys evs = []"
    and res: "resume body g w = (out, g1, w1)"
  shows "\<exists>evs. trace w1 = trace w @ evs \<and> cancels evs = [] \<and> ctx g1 = ctx g \<and>
      (case out of
         Yield r \<Rightarrow> gen_state g1 = SuspendedYield \<and> destroys evs = []
       | _ \<Rightarrow> gen_state g1 = Completed \<and> destroys evs = [streamPtr (ctx g)] \<and>
              filter (\<lambda>r. snd (snd r) = ctx_id (ctx g)) (streamRegistry w1) = [])"
proof -
  obtain evs where e: "trace (snd (body (ctx g) w)) = trace w @ evs" "cancels evs = []" "destroys evs = []"
    using body by blast
  obtain o' w' where b: "body (ctx g) w = (o', w')" by (cases "body (ctx g) w")
  have t: "trace w' = trace w @ evs" using e b by simp
  show ?thesis
  proof (cases o')
    case (Yield r)
    then show ?thesis using b t e res by (auto simp: resume_def)
  next
    case Return
    then show ?thesis using b t e res
      by (rule_tac x = "evs @ [Chdb_destroy_result (streamPtr (ctx g))]" in exI)
         (auto simp: resume_def iterate_finally_eq cancels_append destroys_append)
  next
    case (Throw x)
    then show ?thesis using b t e res
      by (rule_tac x = "evs @ [Chdb_destroy_result (streamPtr (ctx g))]" in exI)
         (auto simp: resume_def iterate_finally_eq cancels_append destroys_append)
  qed
qed

lemma iterate_next_step:
  assumes "gen_state g \<noteq> Completed" and nx: "iterate_next g w = (out, g1, w1)"
  shows "\<exists>evs. trace w1 = trace w @ evs \<and> cancels evs = [] \<and> ctx g1 = ctx g \<and>
      (case out of
         Yield r \<Rightarrow> gen_state g1 = SuspendedYield \<and> destroys evs = []
       | _ \<Rightarrow> gen_state g1 = Completed \<and> destroys evs = [streamPtr (ctx g)] \<and>
              filter (\<lambda>r. snd (snd r) = ctx_id (ctx g)) (streamRegistry w1) = [])"
proof (cases "gen_state g")
  case SuspendedStart
  have b: "\<exists>evs. trace (snd (iterate_start (ctx g) w)) = trace w @ evs \<and> cancels evs = [] \<and> destroys evs = []"
    using iterate_start_quiet [of "ctx g" w] by blast
  have "resume iterate_start g w = (out, g1, w1)"
    using nx SuspendedStart by (simp add: iterate_next_def)
  then show ?thesis by (rule resume_step [where body = iterate_start, OF b])
next
  case SuspendedYield
  have b: "\<exists>evs. trace (snd (iterate_loop (ctx g) w)) = trace w @ evs \<and> cancels evs = [] \<and> destroys evs = []"
    using iterate_loop_quiet [of "ctx g" w] by blast
  have "resume iterate_loop g w = (out, g1, w1)"
    using nx SuspendedYield by (simp add: iterate_next_def)
  then show ?thesis by (rule resume_step [where body = iterate_loop, OF b])
next
  case Completed
  then show ?thesis using assms by simp
qed

lemma for_of_cleanup:
  "gen_state g \<noteq> Completed \<Longrightarrow>
   \<exists>evs. trace (snd (snd (for_of n g w))) = trace w @ evs \<and> cancels evs = [] \<and>
      destroys evs = [streamPtr (ctx g)] \<and> gen_state (fst (snd (for_of n g w))) = Completed \<and>
      filter (\<lambda>r. snd (snd r) = ctx_id (ctx g)) (streamRegistry (snd (snd (for_of n g w)))) = []"
proof (induction n arbitrary: g w)
  case 0
  obtain out g1 w1 where nx: "iterate_next g w = (out, g1, w1)" by (cases "iterate_next g w") auto
  obtain evs where e: "trace w1 = trace w @ evs" "cancels evs = []" "ctx g1 = ctx g"
    "(case out of
         Yield r \<Rightarrow> gen_state g1 = SuspendedYield \<and> destroys evs = []
       | _ \<Rightarrow> gen_state g1 = Completed \<and> destroys evs = [streamPtr (ctx g)] \<and>
              filter (\<lambda>r. snd (snd r) = ctx_id (ctx g)) (streamRegistry w1) = [])"
    using iterate_next_step [OF "0.prems" nx] by blast
  show ?case
  proof (cases out)
    case (Yield r)
    then show ?thesis using nx e
      by (rule_tac x = "evs @ [Chdb_destroy_result (streamPtr (ctx g))]" in exI)
         (simp add: iterate_return_def iterate_finally_eq cancels_append destroys_append)
  next
    case Return
    then show ?thesis using nx e by (rule_tac x = evs in exI) simp
  next
    case (Throw x)
    then show ?thesis using nx e by (rule_tac x = evs in exI) simp
  qed
next
  case (Suc n)
  obtain out g1 w1 where nx: "iterate_next g w = (out, g1, w1)" by (cases "iterate_next g w") auto
  obtain evs where e: "trace w1 = trace w @ evs" "cancels evs = []" "ctx g1 = ctx g"
    "(case out of
         Yield r \<Rightarrow> gen_state g1 = SuspendedYield \<and> destroys evs = []
       | _ \<Rightarrow> gen_state g1 = Completed \<and> destroys evs = [streamPtr (ctx g)] \<and>
              filter (\<lambda>r. snd (snd r) = ctx_id (ctx g)) (streamRegistry w1) = [])"
    using iterate_next_step [OF Suc.prems nx] by blast
  show ?case
  proof (cases out)
    case (Yield r)
    then have "gen_state g1 \<noteq> Completed" using e by simp
    from Suc.IH [OF this, of w1] obtain evs' where
      e': "trace (snd (snd (for_of n g1 w1))) = trace w1 @ evs'" "cancels evs' = []"
        "destroys evs' = [streamPtr (ctx g1)]" "gen_state (fst (snd (for_of n g1 w1))) = Completed"
        "filter (\<lambda>r. snd (snd r) = ctx_id (ctx g1)) (streamRegistry (snd (snd (for_of n g1 w1)))) = []"
      by blast
    obtain res g2 w2 where f: "for_of n g1 w1 = (res, g2, w2)" by (cases "for_of n g1 w1") auto
    show ?thesis using Yield nx e e' f
      by (rule_tac x = "evs @ evs'" in exI)
         (cases res; simp add: cancels_append destroys_append)
  next
    case Return
    then show ?thesis using nx e by (rule_tac x = evs in exI) simp
  next
    case (Throw x)
    then show ?thesis using nx e by (rule_tac x = evs in exI) simp
  qed
qed

lemma stream_exit_cleanup:
  assumes "gen_state g \<noteq> Completed"
  shows "cancels (new_events w (snd (snd (for_of n g w)))) = [] \<and>
         destroys (new_events w (snd (snd (for_of n g w)))) = [streamPtr (ctx g)]"
  using for_of_cleanup [OF assms, of n w] by (auto simp: new_events_def)

section \<open>The claims\<close>

subsection \<open>C1: closing a connection\<close>

text \<open>
  C1, as the code has it. The class \<open>Connection\<close> has no method \<open>close\<close>: calling it
  raises the runtime's \<open>TypeError\<close> and changes nothing. Native close is called by the
  Finalization Supervisor only: for a connection the constructor has returned, the
  constructor, \<open>Connection.query\<close> and \<open>Connection.stream\<close> never call it; when the
  connection is collected, the callback of \<open>connectionRegistry\<close> calls native close
  exactly once, on its handle, and the registration is consumed, so finalizing the same
  connection again calls nothing. (The connection is a new object: no registration of
  the registry has its identity before the constructor runs.)
\<close>

theorem finalization_closes_once:
  assumes new: "Connection_new resolve dsn w = (Inr c, w1)"
    and fresh: "next_obj w \<notin> fst ` set (connectionRegistry w)"
  shows "Connection_call c ''close'' q f w1 = (Inl (TypeError ''close is not a function''), w1) \<and>
         closes (new_events w w1) = [] \<and>
         closes (new_events w1 (snd (Connection_query c q f w1))) = [] \<and>
         closes (new_events w1 (snd (Connection_stream c q f w1))) = [] \<and>
         new_events w1 (connectionRegistry_finalize (self c) w1) = [Close_conn (ptr c)] \<and>
         new_events (connectionRegistry_finalize (self c) w1)
           (connectionRegistry_finalize (self c) (connectionRegistry_finalize (self c) w1)) = []"
proof -
  let ?args = "Connection_args (fst (parseConnectionString resolve dsn))
                 (snd (parseConnectionString resolve dsn))"
  from new have nz: "connect_answer w \<noteq> 0"
    by (auto simp: Connection_new_eq Let_def split: if_splits)
  from new nz have c: "self c = next_obj w" "ptr c = connect_answer w"
    by (auto simp: Connection_new_eq Let_def)
  from new nz have w1: "w1 = w\<lparr>next_obj := Suc (next_obj w),
              connect_returns := snd (next_return (connect_returns w)),
              trace := trace w @ [Connect_chdb (length ?args) ?args],
              connectionRegistry := connectionRegistry w @ [(next_obj w, connect_answer w)]\<rparr>"
    by (simp add: Connection_new_eq Let_def)
  from fresh have f1: "filter (\<lambda>r. fst r = next_obj w) (connectionRegistry w) = []"
    by (force simp: filter_empty_conv)
  from fresh have f2: "filter (\<lambda>r. fst r \<noteq> next_obj w) (connectionRegistry w) = connectionRegistry w"
    by (force simp: filter_id_conv)
  have fin1: "connectionRegistry_finalize (self c) w1 =
      w1\<lparr>connectionRegistry := connectionRegistry w, trace := trace w1 @ [Close_conn (ptr c)]\<rparr>"
    by (simp add: connectionRegistry_finalize_def connectionRegistry_callback_def close_conn_def
        emit_def c w1 f1 f2)
  have fin2: "connectionRegistry_finalize (self c)
       (w1\<lparr>connectionRegistry := connectionRegistry w, trace := trace w1 @ [Close_conn (ptr c)]\<rparr>)
      = w1\<lparr>connectionRegistry := connectionRegistry w, trace := trace w1 @ [Close_conn (ptr c)]\<rparr>"
    by (simp add: connectionRegistry_finalize_def c f1 f2)
  have a: "Connection_call c ''close'' q f w1 = (Inl (TypeError ''close is not a function''), w1)"
    by (simp add: Connection_call_def)
  have b: "closes (new_events w w1) = []"
    by (simp add: w1 new_events_def)
  have d: "new_events w1 (connectionRegistry_finalize (self c) w1) = [Close_conn (ptr c)]"
    by (simp add: fin1 new_events_def)
  have e: "new_events (connectionRegistry_finalize (self c) w1)
           (connectionRegistry_finalize (self c) (connectionRegistry_finalize (self c) w1)) = []"
    by (simp add: fin1 fin2 new_events_def)
  show ?thesis
    using a b d e Connection_query_never_closes Connection_stream_never_closes by simp
qed

theorem finalization_closes_once_witness:
  "Connection_new (\<lambda>p. p) '':memory:'' (example_world\<lparr>connect_returns := [900]\<rparr>) =
     (Inr example_conn, connected_world) \<and>
   next_obj (example_world\<lparr>connect_returns := [900]\<rparr>)
     \<notin> fst ` set (connectionRegistry (example_world\<lparr>connect_returns := [900]\<rparr>)) \<and>
   Connection_call example_conn ''close'' [] [] connected_world =
     (Inl (TypeError ''close is not a function''), connected_world) \<and>
   new_events connected_world (connectionRegistry_finalize 0 connected_world) = [Close_conn 900] \<and>
   new_events (connectionRegistry_finalize 0 connected_world)
     (connectionRegistry_finalize 0 (connectionRegistry_finalize 0 connected_world)) = []"
proof -
  have fresh: "next_obj (example_world\<lparr>connect_returns := [900]\<rparr>)
     \<notin> fst ` set (connectionRegistry (example_world\<lparr>connect_returns := [900]\<rparr>))"
    by (simp add: example_world_def)
  have s: "self example_conn = 0" "ptr example_conn = 900"
    by (simp_all add: example_conn_def)
  show ?thesis
    using example_connect fresh
      finalization_closes_once [OF example_connect fresh, of "[]" "[]"]
    by (simp add: s)
qed

text \<open>
  C1 as the spec states it, "calling \<open>close()\<close> twice never raises and invokes native
  close exactly once", fails on the connection of the example: the first call of
  \<open>close\<close> raises, and native close has not been called.
\<close>

theorem close_is_not_a_method:
  "Connection_new (\<lambda>p. p) '':memory:'' (example_world\<lparr>connect_returns := [900]\<rparr>) =
     (Inr example_conn, connected_world) \<and>
   Connection_call example_conn ''close'' [] [] connected_world =
     (Inl (TypeError ''close is not a function''), connected_world) \<and>
   closes (trace connected_world) = [] \<and>
   \<not> (\<forall>c w. \<exists>v w1 v' w2.
         Connection_call c ''close'' [] [] w = (Inr v, w1) \<and>
         Connection_call c ''close'' [] [] w1 = (Inr v', w2) \<and>
         closes (new_events w w2) = [ptr c])"
proof -
  have a: "Connection_call example_conn ''close'' [] [] connected_world =
     (Inl (TypeError ''close is not a function''), connected_world)"
    by (simp add: Connection_call_def)
  have b: "closes (trace connected_world) = []"
    by (simp add: connected_world_def)
  have "\<not> (\<exists>v w1 v' w2.
         Connection_call example_conn ''close'' [] [] connected_world = (Inr v, w1) \<and>
         Connection_call example_conn ''close'' [] [] w1 = (Inr v', w2) \<and>
         closes (new_events connected_world w2) = [ptr example_conn])"
    by (simp add: a)
  then have c: "\<not> (\<forall>c w. \<exists>v w1 v' w2.
         Connection_call c ''close'' [] [] w = (Inr v, w1) \<and>
         Connection_call c ''close'' [] [] w1 = (Inr v', w2) \<and>
         closes (new_events w w2) = [ptr c])"
    by blast
  show ?thesis using example_connect a b c by blast
qed

subsection \<open>C2: what the cleanup of an abandoned stream calls\<close>

text \<open>
  C2, evaluated at a stream the consumer abandons after its first chunk
  (\<open>for (const chunk of conn.stream(...)) { break; }\<close>, native fetch ready to answer
  three chunks). The consumer saw one chunk, two remain unfetched, and the generator is
  completed. Its cleanup called native destroy once and native cancel not at all; the
  registration is gone, so a later finalization of the context calls nothing.
  \<open>stream_exit_cleanup\<close> above shows the same of every exit of every stream: one
  destroy, no cancel.
\<close>

theorem abandoned_stream_is_destroyed_not_cancelled:
  "(case Connection_stream example_conn ''select * from numbers(200000)'' ''CSV''
          (example_world\<lparr>streaming_returns := [800], fetch_returns := [100, 100, 100]\<rparr>) of
      (Inl e, w1) \<Rightarrow> False
    | (Inr g, w1) \<Rightarrow>
        (case for_of 0 g w1 of (r, g2, w2) \<Rightarrow>
           r = Inr [example_chunk] \<and> gen_state g2 = Completed \<and>
           fetch_returns w2 = [100, 100] \<and>
           cancels (trace w2) = [] \<and> destroys (trace w2) = [800] \<and>
           streamRegistry w2 = [] \<and>
           new_events w2 (streamRegistry_finalize (ctx_id (ctx g)) w2) = []))"
  by (simp add: Connection_stream_def getConnPtr_def query_conn_streaming_def read_defs
      streamRegistry_register_def iterate_next_def iterate_return_def resume_def iterate_start_def
      iterate_loop_def fetch_eq error_eq processLocalResultV2_eq decode_def decode_events_def
      iterate_finally_eq fetch_answer_def error_answer_def streamRegistry_finalize_def
      new_events_def example_defs)

text \<open>
  The other release path of the same stream, the callback of \<open>streamRegistry\<close> run when
  the context is collected before any pull, calls native cancel and then native destroy.
\<close>

theorem collected_stream_is_cancelled_then_destroyed:
  "(case Connection_stream example_conn ''select * from numbers(200000)'' ''CSV''
          (example_world\<lparr>streaming_returns := [800], fetch_returns := [100, 100, 100]\<rparr>) of
      (Inl e, w1) \<Rightarrow> False
    | (Inr g, w1) \<Rightarrow>
        new_events w1 (streamRegistry_finalize (ctx_id (ctx g)) w1) =
          [Chdb_streaming_cancel_query 901 800, Chdb_destroy_result 800])"
  by (simp add: Connection_stream_def getConnPtr_def query_conn_streaming_def read_defs
      streamRegistry_register_def streamRegistry_finalize_def streamRegistry_callback_def
      chdb_streaming_cancel_query_def chdb_destroy_result_def
      new_events_def example_defs)

subsection \<open>C3: the Result Decoder releases its block exactly once\<close>

text \<open>
  C3. For every invocation of \<open>processLocalResultV2\<close> on a block pointer \<open>p\<close>, in every
  world and whatever the runtime does when it decodes the data, the events of the call
  hold exactly one call of the native free, and it is on \<open>p\<close>. The three ways out of the
  \<open>try\<close> block are spelt out. When the error-message field at offset 48 is non-null, the
  call raises a \<open>CHDBError\<close> whose message ends with the text at that pointer (after the
  prefix \<open>chDB Error: \<close>); its events are the read of offset 48, the decoding of the
  message and the free, so neither the data pointer at offset 0 nor the length at offset
  8 is read. When the field is null and the runtime raises an error while it decodes the
  data, that error leaves the call, and the free is the last event, after the reads of
  offsets 0 and 8 and the failed decoding. When the field is null and the data decodes,
  the call returns the data with the three statistics.
\<close>

theorem decoder_frees_once:
  "frees (new_events w (snd (processLocalResultV2 p w))) = [p] \<and>
   (read_ptr (mem w) p errorMessageOffset \<noteq> 0 \<longrightarrow>
      fst (processLocalResultV2 p w) =
        Inl (CHDBError
          (''chDB Error: '' @ cstring (mem w) (read_ptr (mem w) p errorMessageOffset))) \<and>
      new_events w (snd (processLocalResultV2 p w)) =
        [Read_ptr p errorMessageOffset,
         Read_CString (read_ptr (mem w) p errorMessageOffset), Free_result_v2 p] \<and>
      Read_ptr p bufOffset \<notin> set (new_events w (snd (processLocalResultV2 p w))) \<and>
      Read_u64 p lenOffset \<notin> set (new_events w (snd (processLocalResultV2 p w)))) \<and>
   (read_ptr (mem w) p errorMessageOffset = 0 \<and>
    cstring_len (mem w) (read_ptr (mem w) p bufOffset) (read_u64 (mem w) p lenOffset) = Inl e \<longrightarrow>
      fst (processLocalResultV2 p w) = Inl e \<and>
      new_events w (snd (processLocalResultV2 p w)) =
        [Read_ptr p errorMessageOffset, Read_ptr p bufOffset, Read_u64 p lenOffset,
         Read_CString_len (read_ptr (mem w) p bufOffset) (read_u64 (mem w) p lenOffset),
         Free_result_v2 p]) \<and>
   (read_ptr (mem w) p errorMessageOffset = 0 \<and>
    cstring_len (mem w) (read_ptr (mem w) p bufOffset) (read_u64 (mem w) p lenOffset) = Inr d \<longrightarrow>
      fst (processLocalResultV2 p w) =
        Inr \<lparr>data = d,
             stats = \<lparr>elapsed = read_f64 (mem w) p elapsedOffset,
                      rowsRead = read_u64 (mem w) p rowsReadOffset,
                      bytesRead = read_u64 (mem w) p bytesReadOffset\<rparr>\<rparr>)"
proof (intro conjI impI)
  show "frees (new_events w (snd (processLocalResultV2 p w))) = [p]"
    by (simp add: processLocalResultV2_eq new_events_def frees_decode_events)
next
  assume a: "read_ptr (mem w) p errorMessageOffset \<noteq> 0"
  then have b: "read_ptr (mem w) p 48 \<noteq> 0" by (simp add: offsets)
  show "fst (processLocalResultV2 p w) =
        Inl (CHDBError
          (''chDB Error: '' @ cstring (mem w) (read_ptr (mem w) p errorMessageOffset)))"
    and "new_events w (snd (processLocalResultV2 p w)) =
        [Read_ptr p errorMessageOffset,
         Read_CString (read_ptr (mem w) p errorMessageOffset), Free_result_v2 p]"
    and "Read_ptr p bufOffset \<notin> set (new_events w (snd (processLocalResultV2 p w)))"
    and "Read_u64 p lenOffset \<notin> set (new_events w (snd (processLocalResultV2 p w)))"
    by (simp_all add: processLocalResultV2_error_path [OF b] new_events_def offsets)
next
  assume a: "read_ptr (mem w) p errorMessageOffset = 0 \<and>
    cstring_len (mem w) (read_ptr (mem w) p bufOffset) (read_u64 (mem w) p lenOffset) = Inl e"
  then have b: "read_ptr (mem w) p 48 = 0"
    "cstring_len (mem w) (read_ptr (mem w) p 0) (read_u64 (mem w) p 8) = Inl e"
    by (simp_all add: offsets)
  show "fst (processLocalResultV2 p w) = Inl e"
    and "new_events w (snd (processLocalResultV2 p w)) =
        [Read_ptr p errorMessageOffset, Read_ptr p bufOffset, Read_u64 p lenOffset,
         Read_CString_len (read_ptr (mem w) p bufOffset) (read_u64 (mem w) p lenOffset),
         Free_result_v2 p]"
    by (simp_all add: processLocalResultV2_exception_path [OF b] new_events_def offsets)
next
  assume a: "read_ptr (mem w) p errorMessageOffset = 0 \<and>
    cstring_len (mem w) (read_ptr (mem w) p bufOffset) (read_u64 (mem w) p lenOffset) = Inr d"
  then have b: "read_ptr (mem w) p 48 = 0"
    "cstring_len (mem w) (read_ptr (mem w) p 0) (read_u64 (mem w) p 8) = Inr d"
    by (simp_all add: offsets)
  show "fst (processLocalResultV2 p w) =
        Inr \<lparr>data = d,
             stats = \<lparr>elapsed = read_f64 (mem w) p elapsedOffset,
                      rowsRead = read_u64 (mem w) p rowsReadOffset,
                      bytesRead = read_u64 (mem w) p bytesReadOffset\<rparr>\<rparr>"
    by (simp add: processLocalResultV2_success_path [OF b] offsets)
qed

theorem decoder_frees_once_witness:
  "read_ptr (mem example_world) 200 errorMessageOffset \<noteq> 0 \<and>
   frees (new_events example_world (snd (processLocalResultV2 200 example_world))) = [200] \<and>
   fst (processLocalResultV2 200 example_world) = Inl (CHDBError ''chDB Error: boom'') \<and>
   Read_ptr 200 bufOffset
     \<notin> set (new_events example_world (snd (processLocalResultV2 200 example_world))) \<and>
   Read_u64 200 lenOffset
     \<notin> set (new_events example_world (snd (processLocalResultV2 200 example_world))) \<and>
   read_ptr (mem example_world) 400 errorMessageOffset = 0 \<and>
   cstring_len (mem example_world) (read_ptr (mem example_world) 400 bufOffset)
     (read_u64 (mem example_world) 400 lenOffset) = Inl (TypeError ''CString: the length is 0'') \<and>
   fst (processLocalResultV2 400 example_world) = Inl (TypeError ''CString: the length is 0'') \<and>
   frees (new_events example_world (snd (processLocalResultV2 400 example_world))) = [400] \<and>
   read_ptr (mem example_world) 100 errorMessageOffset = 0 \<and>
   cstring_len (mem example_world) (read_ptr (mem example_world) 100 bufOffset)
     (read_u64 (mem example_world) 100 lenOffset) = Inr (''123'' @ [CHR 0x0A]) \<and>
   fst (processLocalResultV2 100 example_world) = Inr example_chunk \<and>
   frees (new_events example_world (snd (processLocalResultV2 100 example_world))) = [100]"
proof -
  have h: "read_ptr (mem example_world) 200 errorMessageOffset \<noteq> 0"
    "read_ptr (mem example_world) 400 errorMessageOffset = 0"
    "read_ptr (mem example_world) 100 errorMessageOffset = 0"
    "cstring_len (mem example_world) (read_ptr (mem example_world) 400 bufOffset)
       (read_u64 (mem example_world) 400 lenOffset) = Inl (TypeError ''CString: the length is 0'')"
    "cstring_len (mem example_world) (read_ptr (mem example_world) 100 bufOffset)
       (read_u64 (mem example_world) 100 lenOffset) = Inr (''123'' @ [CHR 0x0A])"
    "cstring (mem example_world) (read_ptr (mem example_world) 200 errorMessageOffset) = ''boom''"
    by (simp_all add: example_world_def example_mem_def offsets)
  have s: "\<lparr>data = ''123'' @ [CHR 0x0A],
             stats = \<lparr>elapsed = read_f64 (mem example_world) 100 elapsedOffset,
                      rowsRead = read_u64 (mem example_world) 100 rowsReadOffset,
                      bytesRead = read_u64 (mem example_world) 100 bytesReadOffset\<rparr>\<rparr> = example_chunk"
    by (simp add: example_world_def example_mem_def example_chunk_def offsets)
  note A = decoder_frees_once [of example_world 200]
  note B = decoder_frees_once [of example_world 400 "TypeError ''CString: the length is 0''"]
  note C = decoder_frees_once [of example_world 100 _ "''123'' @ [CHR 0x0A]"]
  have a0: "fst (processLocalResultV2 200 example_world) =
        Inl (CHDBError
          (''chDB Error: '' @ cstring (mem example_world)
             (read_ptr (mem example_world) 200 errorMessageOffset)))"
    using A h(1) by blast
  have a: "frees (new_events example_world (snd (processLocalResultV2 200 example_world))) = [200]"
    "Read_ptr 200 bufOffset
       \<notin> set (new_events example_world (snd (processLocalResultV2 200 example_world)))"
    "Read_u64 200 lenOffset
       \<notin> set (new_events example_world (snd (processLocalResultV2 200 example_world)))"
    using A h(1) by blast+
  have a1: "fst (processLocalResultV2 200 example_world) = Inl (CHDBError ''chDB Error: boom'')"
    using a0 h(6) by simp
  have b: "fst (processLocalResultV2 400 example_world) = Inl (TypeError ''CString: the length is 0'')"
    "frees (new_events example_world (snd (processLocalResultV2 400 example_world))) = [400]"
    using B h(2) h(4) by blast+
  have c0: "fst (processLocalResultV2 100 example_world) =
      Inr \<lparr>data = ''123'' @ [CHR 0x0A],
             stats = \<lparr>elapsed = read_f64 (mem example_world) 100 elapsedOffset,
                      rowsRead = read_u64 (mem example_world) 100 rowsReadOffset,
                      bytesRead = read_u64 (mem example_world) 100 bytesReadOffset\<rparr>\<rparr>"
    using C h(3) h(5) by blast
  have c: "fst (processLocalResultV2 100 example_world) = Inr example_chunk"
    using c0 s by simp
  have c': "frees (new_events example_world (snd (processLocalResultV2 100 example_world))) = [100]"
    using C by blast
  show ?thesis using h a a1 b c c' by blast
qed

subsection \<open>C4: one pull on a streaming cursor\<close>




subsection \<open>C5: the \<open>file:\<close> prefix\<close>

text \<open>
  C5, as the code has it. For every connection string that begins with \<open>file:\<close>, the
  prefix is stripped; if what remains begins with \<open>///\<close>, its first two characters are
  dropped, so that one leading \<open>/\<close> is left, and otherwise it is kept as it is; the query
  component and the path resolution then work on the result.
\<close>

theorem file_prefix_stripped:
  "strip_file_prefix (''file:'' @ rest) = (if startsWith rest ''///'' then slice rest 2 else rest) \<and>
   strip_file_prefix (''file:///'' @ r) = ''/'' @ r \<and>
   parseConnectionString resolve (''file:'' @ rest) =
     parse_after_prefix resolve (if startsWith rest ''///'' then slice rest 2 else rest)"
  by (simp add: parseConnectionString_def strip_file_prefix_def string_defs)

text \<open>
  C5 as the spec states it, "if the remainder begins with \<open>//\<close>, one \<open>/\<close> is collapsed
  away", fails on \<open>file://tmp/db\<close>: the remainder \<open>//tmp/db\<close> begins with \<open>//\<close> and is
  kept whole.
\<close>

theorem file_prefix_two_slashes_kept:
  "strip_file_prefix ''file://tmp/db'' = ''//tmp/db'' \<and>
   parseConnectionString (\<lambda>p. p) ''file://tmp/db'' = (''//tmp/db'', []) \<and>
   \<not> (\<forall>rest. startsWith rest ''//'' \<longrightarrow> strip_file_prefix (''file:'' @ rest) = slice rest 1)"
proof -
  have a: "strip_file_prefix ''file://tmp/db'' = ''//tmp/db''"
    by (simp add: strip_file_prefix_def string_defs)
  have b: "parseConnectionString (\<lambda>p. p) ''file://tmp/db'' = (''//tmp/db'', [])"
    by (simp add: parse_defs string_defs)
  have "\<not> (startsWith ''//tmp/db'' ''//'' \<longrightarrow>
          strip_file_prefix (''file:'' @ ''//tmp/db'') = slice ''//tmp/db'' 1)"
    by (simp add: strip_file_prefix_def string_defs)
  then have c: "\<not> (\<forall>rest. startsWith rest ''//'' \<longrightarrow>
      strip_file_prefix (''file:'' @ rest) = slice rest 1)"
    by blast
  show ?thesis using a b c by blast
qed

subsection \<open>C6: the two connection strings of the spec\<close>

text \<open>
  C6. \<open>parseConnectionString(":memory:")\<close> is \<open>(":memory:", {})\<close>;
  \<open>parseConnectionString("file:///tmp/db?mode=ro")\<close> is \<open>("/tmp/db", {mode: "ro"})\<close>; and
  the constructor, given that connection string, calls native connect with the three
  arguments \<open>clickhouse\<close>, \<open>--path=/tmp/db\<close>, \<open>--readonly=1\<close>, whatever the working
  directory and the state of the world.
\<close>

theorem spec_examples:
  "parseConnectionString resolve '':memory:'' = ('':memory:'', []) \<and>
   parseConnectionString resolve ''file:///tmp/db?mode=ro'' = (''/tmp/db'', [(''mode'', ''ro'')]) \<and>
   Connection_args ''/tmp/db'' [(''mode'', ''ro'')] =
     [''clickhouse'', ''--path=/tmp/db'', ''--readonly=1''] \<and>
   new_events w (snd (Connection_new resolve ''file:///tmp/db?mode=ro'' w)) =
     [Connect_chdb 3 [''clickhouse'', ''--path=/tmp/db'', ''--readonly=1'']] \<and>
   ''--readonly=1'' \<in> set (Connection_args (fst (parseConnectionString resolve ''file:///tmp/db?mode=ro''))
      (snd (parseConnectionString resolve ''file:///tmp/db?mode=ro'')))"
proof -
  have a: "parseConnectionString resolve '':memory:'' = ('':memory:'', [])"
    by (simp add: parseConnectionString_def)
  have b: "parseConnectionString resolve ''file:///tmp/db?mode=ro'' = (''/tmp/db'', [(''mode'', ''ro'')])"
    by (simp add: parse_defs string_defs url_defs obj_defs)
  have c: "Connection_args ''/tmp/db'' [(''mode'', ''ro'')] =
     [''clickhouse'', ''--path=/tmp/db'', ''--readonly=1'']"
    by (simp add: Connection_args_def push_param_def obj_defs)
  have d: "new_events w (snd (Connection_new resolve ''file:///tmp/db?mode=ro'' w)) =
     [Connect_chdb 3 [''clickhouse'', ''--path=/tmp/db'', ''--readonly=1'']]"
    by (simp add: Connection_new_def b c buildArgv_def connect_chdb_def emit_def
        connectionRegistry_register_def new_events_def split_beta Let_def)
  show ?thesis using a b c d by simp
qed

subsection \<open>C7: the argument list of the constructor\<close>

text \<open>
  C7, as the code has it. For every path and parameter object, the argument list is the
  token \<open>clickhouse\<close>, then \<open>--path=<path>\<close> unless the path is \<open>:memory:\<close>, then, for the
  entries of the parameter object in the order of \<open>Object.entries\<close>: \<open>--readonly=1\<close> for
  \<open>mode\<close> with the value \<open>ro\<close>, nothing for \<open>mode\<close> with any other value, a bare \<open>--\<close>
  for the key \<open>--\<close>, \<open>--key\<close> for a key with an empty value and \<open>--key=value\<close> otherwise.
  So every parameter other than a \<open>mode\<close> whose value is not \<open>ro\<close> yields exactly one
  entry.
\<close>

theorem connection_args_structure:
  "Connection_args pth prms =
     [''clickhouse''] @ (if pth = '':memory:'' then [] else [''--path='' @ pth])
       @ concat (map param_flags (Object_entries prms)) \<and>
   length (Connection_args pth prms) =
     1 + (if pth = '':memory:'' then 0 else 1)
       + length (filter (\<lambda>kv. \<not> (fst kv = ''mode'' \<and> snd kv \<noteq> ''ro'')) (Object_entries prms))"
proof -
  have l: "length (concat (map param_flags kvs)) =
      length (filter (\<lambda>kv. \<not> (fst kv = ''mode'' \<and> snd kv \<noteq> ''ro'')) kvs)" for kvs
    by (induction kvs) (auto simp: param_flags_def)
  show ?thesis
    by (simp add: Connection_args_def fold_push_param l)
qed

text \<open>
  C7 as the spec states it, "exactly one entry per remaining param", fails on the
  parameter \<open>mode=rw\<close>, which yields no entry.
\<close>

theorem mode_rw_yields_no_argument:
  "Connection_args '':memory:'' [(''mode'', ''rw'')] = [''clickhouse''] \<and>
   \<not> (\<forall>pth prms. length (Connection_args pth prms) =
         1 + (if pth = '':memory:'' then 0 else 1) + length (Object_entries prms))"
proof -
  have a: "Connection_args '':memory:'' [(''mode'', ''rw'')] = [''clickhouse'']"
    by (simp add: Connection_args_def push_param_def obj_defs)
  have b: "length (Object_entries [(''mode'', ''rw'')]) = 1"
    by (simp add: obj_defs)
  have "length (Connection_args '':memory:'' [(''mode'', ''rw'')]) \<noteq>
         1 + (if '':memory:'' = '':memory:'' then 0 else 1) + length (Object_entries [(''mode'', ''rw'')])"
    by (simp add: a b)
  then have "\<not> (\<forall>pth prms. length (Connection_args pth prms) =
         1 + (if pth = '':memory:'' then 0 else 1) + length (Object_entries prms))"
    by blast
  then show ?thesis using a by blast
qed

subsection \<open>C8: the text of the errors\<close>

text \<open>
  C8, as the code has it. The error raised for a result block carrying an error message,
  for an initial stream error and for a stream error found after a null fetch has as its
  message the native engine's text, unaltered, after a prefix of the library
  (\<open>chDB Error: \<close>, \<open>chDB Streaming Initialization Error: \<close>,
  \<open>chDB Streaming Fetch Error: \<close>). The error raised on a connect failure, on a null
  query result and on a streaming-start failure has a fixed message of the library (with
  the resolved path, for the connect failure): native code handed over no text.
\<close>

theorem error_messages:
  "(read_ptr (mem w) p errorMessageOffset \<noteq> 0 \<longrightarrow>
      (\<exists>e. fst (processLocalResultV2 p w) = Inl e \<and>
         message_of e = ''chDB Error: '' @ cstring (mem w) (read_ptr (mem w) p errorMessageOffset))) \<and>
   (gen_state g = SuspendedStart \<and> error_answer w \<noteq> 0 \<longrightarrow>
      (\<exists>e. fst (iterate_next g w) = Throw e \<and>
         message_of e = ''chDB Streaming Initialization Error: '' @ cstring (mem w) (error_answer w))) \<and>
   (gen_state g = SuspendedYield \<and> fetch_answer w = 0 \<and> error_answer w \<noteq> 0 \<longrightarrow>
      (\<exists>e. fst (iterate_next g w) = Throw e \<and>
         message_of e = ''chDB Streaming Fetch Error: '' @ cstring (mem w) (error_answer w))) \<and>
   (connect_answer w = 0 \<longrightarrow>
      (\<exists>e. fst (Connection_new resolve dsn w) = Inl e \<and>
         message_of e = ''Failed to connect to chDB connection at path: ''
            @ fst (parseConnectionString resolve dsn))) \<and>
   (query_answer w = 0 \<longrightarrow>
      (\<exists>e. fst (query q f w) = Inl e \<and>
         message_of e = ''chDB call failed to return a result structure (null pointer).'')) \<and>
   (read_ptr (mem w) (ptr c) 0 \<noteq> 0 \<and> query_answer w = 0 \<longrightarrow>
      (\<exists>e. fst (Connection_query c q f w) = Inl e \<and>
         message_of e = ''chDB call failed to return a result structure (null pointer).'')) \<and>
   (read_ptr (mem w) (ptr c) 0 \<noteq> 0 \<and> streaming_answer w = 0 \<longrightarrow>
      (\<exists>e. fst (Connection_stream c q f w) = Inl e \<and>
         message_of e = ''Failed to initiate chDB streaming query.''))"
proof (intro conjI impI)
  assume "read_ptr (mem w) p errorMessageOffset \<noteq> 0"
  then show "\<exists>e. fst (processLocalResultV2 p w) = Inl e \<and>
         message_of e = ''chDB Error: '' @ cstring (mem w) (read_ptr (mem w) p errorMessageOffset)"
    by (simp add: processLocalResultV2_eq decode_def offsets)
next
  assume "gen_state g = SuspendedStart \<and> error_answer w \<noteq> 0"
  then show "\<exists>e. fst (iterate_next g w) = Throw e \<and>
         message_of e = ''chDB Streaming Initialization Error: '' @ cstring (mem w) (error_answer w)"
    by (simp add: iterate_next_def fst_resume iterate_start_error)
next
  assume "gen_state g = SuspendedYield \<and> fetch_answer w = 0 \<and> error_answer w \<noteq> 0"
  then show "\<exists>e. fst (iterate_next g w) = Throw e \<and>
         message_of e = ''chDB Streaming Fetch Error: '' @ cstring (mem w) (error_answer w)"
    by (simp add: iterate_next_def fst_resume iterate_loop_fetch_null_error)
next
  assume "connect_answer w = 0"
  then show "\<exists>e. fst (Connection_new resolve dsn w) = Inl e \<and>
         message_of e = ''Failed to connect to chDB connection at path: ''
            @ fst (parseConnectionString resolve dsn)"
    by (simp add: Connection_new_eq Let_def)
next
  assume "query_answer w = 0"
  then show "\<exists>e. fst (query q f w) = Inl e \<and>
         message_of e = ''chDB call failed to return a result structure (null pointer).''"
    by (simp add: query_eq Let_def)
next
  assume "read_ptr (mem w) (ptr c) 0 \<noteq> 0 \<and> query_answer w = 0"
  then show "\<exists>e. fst (Connection_query c q f w) = Inl e \<and>
         message_of e = ''chDB call failed to return a result structure (null pointer).''"
    by (simp add: Connection_query_eq)
next
  assume "read_ptr (mem w) (ptr c) 0 \<noteq> 0 \<and> streaming_answer w = 0"
  then show "\<exists>e. fst (Connection_stream c q f w) = Inl e \<and>
         message_of e = ''Failed to initiate chDB streaming query.''"
    by (simp add: Connection_stream_eq)
qed

theorem error_messages_witness:
  "read_ptr (mem example_world) 200 errorMessageOffset \<noteq> 0 \<and>
   cstring (mem example_world) (read_ptr (mem example_world) 200 errorMessageOffset) = ''boom'' \<and>
   (\<exists>e. fst (processLocalResultV2 200 example_world) = Inl e \<and>
        message_of e = ''chDB Error: boom'') \<and>
   error_answer (example_world\<lparr>error_returns := [700]\<rparr>) \<noteq> 0 \<and>
   fetch_answer (example_world\<lparr>error_returns := [700]\<rparr>) = 0 \<and>
   cstring (mem example_world) (error_answer (example_world\<lparr>error_returns := [700]\<rparr>))
     = ''stream failed'' \<and>
   (\<exists>e. fst (iterate_next \<lparr>gen_state = SuspendedStart, ctx = example_ctx\<rparr>
               (example_world\<lparr>error_returns := [700]\<rparr>)) = Throw e \<and>
        message_of e = ''chDB Streaming Initialization Error: stream failed'') \<and>
   (\<exists>e. fst (iterate_next \<lparr>gen_state = SuspendedYield, ctx = example_ctx\<rparr>
               (example_world\<lparr>error_returns := [700]\<rparr>)) = Throw e \<and>
        message_of e = ''chDB Streaming Fetch Error: stream failed'') \<and>
   connect_answer example_world = 0 \<and>
   (\<exists>e. fst (Connection_new (\<lambda>p. p) ''file:///tmp/db'' example_world) = Inl e \<and>
        message_of e = ''Failed to connect to chDB connection at path: /tmp/db'') \<and>
   query_answer example_world = 0 \<and>
   (\<exists>e. fst (query ''select 123'' ''CSV'' example_world) = Inl e \<and>
        message_of e = ''chDB call failed to return a result structure (null pointer).'') \<and>
   read_ptr (mem example_world) (ptr example_conn) 0 \<noteq> 0 \<and>
   (\<exists>e. fst (Connection_query example_conn ''select 123'' ''CSV'' example_world) = Inl e \<and>
        message_of e = ''chDB call failed to return a result structure (null pointer).'') \<and>
   streaming_answer example_world = 0 \<and>
   (\<exists>e. fst (Connection_stream example_conn ''select 123'' ''CSV'' example_world) = Inl e \<and>
        message_of e = ''Failed to initiate chDB streaming query.'')"
proof -
  let ?s = "\<lparr>gen_state = SuspendedStart, ctx = example_ctx\<rparr>"
  let ?y = "\<lparr>gen_state = SuspendedYield, ctx = example_ctx\<rparr>"
  let ?w = "example_world\<lparr>error_returns := [700]\<rparr>"
  have a: "connect_answer example_world = 0" "query_answer example_world = 0"
    "streaming_answer example_world = 0" "error_answer ?w = 700" "fetch_answer ?w = 0"
    by (simp_all add: connect_answer_def query_answer_def streaming_answer_def error_answer_def
        fetch_answer_def example_world_def)
  have b: "read_ptr (mem example_world) (ptr example_conn) 0 \<noteq> 0"
    "read_ptr (mem example_world) 200 errorMessageOffset \<noteq> 0"
    "cstring (mem example_world) (read_ptr (mem example_world) 200 errorMessageOffset) = ''boom''"
    "cstring (mem example_world) 700 = ''stream failed''"
    "mem ?w = mem example_world"
    by (simp_all add: example_defs offsets)
  have p: "fst (parseConnectionString (\<lambda>p. p) ''file:///tmp/db'') = ''/tmp/db''"
    by (simp add: parse_defs string_defs)
  note T1 = error_messages [where w = example_world and p = 200 and c = example_conn
      and resolve = "\<lambda>p. p" and dsn = "''file:///tmp/db''" and q = "''select 123''" and f = "''CSV''"]
  note T2 = error_messages [where w = ?w and g = ?s]
  note T3 = error_messages [where w = ?w and g = ?y]
  have c1: "\<exists>e. fst (processLocalResultV2 200 example_world) = Inl e \<and>
        message_of e = ''chDB Error: boom''"
    using T1 b by simp
  have c2: "\<exists>e. fst (iterate_next ?s ?w) = Throw e \<and>
        message_of e = ''chDB Streaming Initialization Error: stream failed''"
    using T2 a b by simp
  have c3: "\<exists>e. fst (iterate_next ?y ?w) = Throw e \<and>
        message_of e = ''chDB Streaming Fetch Error: stream failed''"
    using T3 a b by simp
  have c4: "\<exists>e. fst (Connection_new (\<lambda>p. p) ''file:///tmp/db'' example_world) = Inl e \<and>
        message_of e = ''Failed to connect to chDB connection at path: /tmp/db''"
    using T1 a p by simp
  have c5: "\<exists>e. fst (query ''select 123'' ''CSV'' example_world) = Inl e \<and>
        message_of e = ''chDB call failed to return a result structure (null pointer).''"
    using T1 a by simp
  have c6: "\<exists>e. fst (Connection_query example_conn ''select 123'' ''CSV'' example_world) = Inl e \<and>
        message_of e = ''chDB call failed to return a result structure (null pointer).''"
    using T1 a b by simp
  have c7: "\<exists>e. fst (Connection_stream example_conn ''select 123'' ''CSV'' example_world) = Inl e \<and>
        message_of e = ''Failed to initiate chDB streaming query.''"
    using T1 a b by simp
  show ?thesis
    using a b c1 c2 c3 c4 c5 c6 c7 by simp
qed

text \<open>
  C8 as the spec states it, "every raised error carries the native engine's message
  verbatim, with no alteration", fails on the block 200: the native text is \<open>boom\<close> and
  the message raised is \<open>chDB Error: boom\<close>. On a failed connect the only native event
  is the connect call, and the message is the library's own.
\<close>

theorem raised_message_is_not_the_native_text:
  "cstring (mem example_world) (read_ptr (mem example_world) 200 errorMessageOffset) = ''boom'' \<and>
   fst (processLocalResultV2 200 example_world) = Inl (CHDBError ''chDB Error: boom'') \<and>
   fst (Connection_new (\<lambda>p. p) '':memory:'' example_world) =
     Inl (CHDBError ''Failed to connect to chDB connection at path: :memory:'') \<and>
   new_events example_world (snd (Connection_new (\<lambda>p. p) '':memory:'' example_world)) =
     [Connect_chdb 1 [''clickhouse'']] \<and>
   \<not> (\<forall>w p e. fst (processLocalResultV2 p w) = Inl e \<longrightarrow>
          message_of e = cstring (mem w) (read_ptr (mem w) p errorMessageOffset))"
proof -
  have a: "cstring (mem example_world) (read_ptr (mem example_world) 200 errorMessageOffset) = ''boom''"
    by (simp add: example_defs offsets)
  have b: "fst (processLocalResultV2 200 example_world) = Inl (CHDBError ''chDB Error: boom'')"
    by (simp add: processLocalResultV2_eq decode_def example_defs)
  have ca: "connect_answer example_world = 0"
    by (simp add: connect_answer_def example_world_def)
  have pa: "parseConnectionString (\<lambda>p. p) '':memory:'' = ('':memory:'', [])"
    by (simp add: parseConnectionString_def)
  have ar: "Connection_args '':memory:'' [] = [''clickhouse'']"
    by (simp add: Connection_args_def Object_entries_def)
  have c: "fst (Connection_new (\<lambda>p. p) '':memory:'' example_world) =
     Inl (CHDBError ''Failed to connect to chDB connection at path: :memory:'')"
    using ca by (simp add: Connection_new_eq pa Let_def)
  have d: "new_events example_world (snd (Connection_new (\<lambda>p. p) '':memory:'' example_world)) =
     [Connect_chdb 1 [''clickhouse'']]"
    using ca by (simp add: Connection_new_eq pa ar Let_def new_events_def)
  have "\<not> (fst (processLocalResultV2 200 example_world) = Inl (CHDBError ''chDB Error: boom'') \<longrightarrow>
      message_of (CHDBError ''chDB Error: boom'') =
        cstring (mem example_world) (read_ptr (mem example_world) 200 errorMessageOffset))"
    using a b by simp
  then have e: "\<not> (\<forall>w p e. fst (processLocalResultV2 p w) = Inl e \<longrightarrow>
          message_of e = cstring (mem w) (read_ptr (mem w) p errorMessageOffset))"
    by blast
  show ?thesis using a b c d e by blast
qed

subsection \<open>C9: which failures raise \<open>CHDBError\<close>\<close>




subsection \<open>C10: a chunk with a null data pointer ends the stream\<close>

text \<open>
  C10. Take a pull that reaches the native fetch: the generator is suspended at its
  \<open>yield\<close>, or at its start with no initial error. If the fetch returns a non-null
  block whose data pointer at offset 0 is null, the pull ends the sequence normally
  (\<open>Return\<close>, generator completed): it yields nothing and raises nothing, the block is
  freed exactly once, and from the fetch on the events are the fetch, the read of
  offset 0, the free of the block and the destroy of the \<open>finally\<close> block, so the stream
  error state is not consulted and the decoder is not run.
\<close>

theorem empty_chunk_ends_stream:
  assumes "gen_state g = SuspendedYield \<or> (gen_state g = SuspendedStart \<and> error_answer w = 0)"
    and "fetch_answer w \<noteq> 0" and "read_ptr (mem w) (fetch_answer w) 0 = 0"
  shows "fst (iterate_next g w) = Return \<and>
         gen_state (fst (snd (iterate_next g w))) = Completed \<and>
         frees (new_events w (snd (snd (iterate_next g w)))) = [fetch_answer w] \<and>
         dropWhile (\<lambda>e. e \<noteq> Chdb_streaming_fetch_result (connPtr (ctx g)) (streamPtr (ctx g)))
           (new_events w (snd (snd (iterate_next g w)))) =
           [Chdb_streaming_fetch_result (connPtr (ctx g)) (streamPtr (ctx g)),
            Read_ptr (fetch_answer w) 0, Free_result_v2 (fetch_answer w),
            Chdb_destroy_result (streamPtr (ctx g))]"
  using assms(1)
proof
  assume "gen_state g = SuspendedYield"
  then show ?thesis
    using assms(2,3)
    by (simp add: iterate_next_def resume_def iterate_loop_empty_block iterate_finally_eq
        new_events_def)
next
  assume a: "gen_state g = SuspendedStart \<and> error_answer w = 0"
  let ?w1 = "w\<lparr>error_returns := snd (next_return (error_returns w)),
        trace := trace w @ [Chdb_streaming_result_error (streamPtr (ctx g))]\<rparr>"
  have f: "fetch_answer ?w1 = fetch_answer w" by (simp add: fetch_answer_def)
  have l: "iterate_loop (ctx g) ?w1 = (Return,
      ?w1\<lparr>fetch_returns := snd (next_return (fetch_returns ?w1)),
        trace := trace ?w1 @ [Chdb_streaming_fetch_result (connPtr (ctx g)) (streamPtr (ctx g)),
                 Read_ptr (fetch_answer ?w1) 0, Free_result_v2 (fetch_answer ?w1)]\<rparr>)"
    using assms(2,3) by (intro iterate_loop_empty_block) (simp_all add: f)
  show ?thesis
    using a
    by (simp add: iterate_next_def resume_def iterate_start_ok l f iterate_finally_eq
        new_events_def)
qed

theorem empty_chunk_ends_stream_witness:
  "gen_state \<lparr>gen_state = SuspendedYield, ctx = example_ctx\<rparr> = SuspendedYield \<and>
   fetch_answer (example_world\<lparr>fetch_returns := [300]\<rparr>) = 300 \<and>
   read_ptr (mem (example_world\<lparr>fetch_returns := [300]\<rparr>)) 300 0 = 0 \<and>
   fst (iterate_next \<lparr>gen_state = SuspendedYield, ctx = example_ctx\<rparr>
         (example_world\<lparr>fetch_returns := [300]\<rparr>)) = Return \<and>
   gen_state (fst (snd (iterate_next \<lparr>gen_state = SuspendedYield, ctx = example_ctx\<rparr>
         (example_world\<lparr>fetch_returns := [300]\<rparr>)))) = Completed \<and>
   frees (new_events (example_world\<lparr>fetch_returns := [300]\<rparr>)
     (snd (snd (iterate_next \<lparr>gen_state = SuspendedYield, ctx = example_ctx\<rparr>
         (example_world\<lparr>fetch_returns := [300]\<rparr>))))) = [300] \<and>
   dropWhile (\<lambda>e. e \<noteq> Chdb_streaming_fetch_result 901 800)
     (new_events (example_world\<lparr>fetch_returns := [300]\<rparr>)
       (snd (snd (iterate_next \<lparr>gen_state = SuspendedYield, ctx = example_ctx\<rparr>
         (example_world\<lparr>fetch_returns := [300]\<rparr>))))) =
     [Chdb_streaming_fetch_result 901 800, Read_ptr 300 0, Free_result_v2 300,
      Chdb_destroy_result 800]"
proof -
  let ?g = "\<lparr>gen_state = SuspendedYield, ctx = example_ctx\<rparr>"
  let ?w = "example_world\<lparr>fetch_returns := [300]\<rparr>"
  have h1: "gen_state ?g = SuspendedYield \<or> (gen_state ?g = SuspendedStart \<and> error_answer ?w = 0)"
    by simp
  have f: "fetch_answer ?w = 300" by (simp add: fetch_answer_def)
  have h2: "fetch_answer ?w \<noteq> 0" by (simp add: f)
  have h3: "read_ptr (mem ?w) (fetch_answer ?w) 0 = 0"
    unfolding f by (simp add: example_world_def example_mem_def)
  have d: "connPtr example_ctx = 901" "streamPtr example_ctx = 800"
    by (simp_all add: example_ctx_def)
  show ?thesis
    using h3 empty_chunk_ends_stream [OF h1 h2 h3]
    by (simp add: d f)
qed

end
